theory Spec2Isabelle
  imports Main "HOL-Library.Word"
begin

unbundle bit_operations_syntax

section \<open>Machine types and status codes\<close>

text \<open>
  The development embeds \<^verbatim>\<open>libs/vkd3d/resource.c\<close>. C integers keep their width:
  \<^verbatim>\<open>uint64_t\<close>, \<^verbatim>\<open>VkDeviceSize\<close> and \<^verbatim>\<open>LONG64\<close> are 64-bit words, \<^verbatim>\<open>unsigned int\<close>,
  \<^verbatim>\<open>uint32_t\<close>, \<^verbatim>\<open>ULONG\<close> and \<^verbatim>\<open>LONG\<close> are 32-bit words, \<^verbatim>\<open>UINT16\<close> is a 16-bit word;
  \<open>+\<close>, \<open>-\<close> and \<open>*\<close> wrap around as in C.
\<close>

type_synonym u64 = "64 word"
type_synonym u32 = "32 word"
type_synonym u16 = "16 word"

text \<open>
  \<^verbatim>\<open>HRESULT\<close>: the codes the file returns. \<open>E_NATIVE\<close> stands for any other failure
  code that \<^verbatim>\<open>hresult_from_vk_result\<close> produces from a failed Vulkan call.
\<close>

datatype HRESULT = S_OK | E_INVALIDARG | E_OUTOFMEMORY | E_FAIL | E_NATIVE int

definition FAILED :: "HRESULT \<Rightarrow> bool" where
  "FAILED hr = (hr \<noteq> S_OK)"

section \<open>Resource descriptions and the native image interface\<close>

datatype D3D12_RESOURCE_DIMENSION =
  DIMENSION_UNKNOWN | DIMENSION_BUFFER | DIMENSION_TEXTURE1D | DIMENSION_TEXTURE2D
  | DIMENSION_TEXTURE3D

record D3D12_RESOURCE_DESC =
  Dimension :: D3D12_RESOURCE_DIMENSION
  Alignment :: u64
  Width :: u64
  Height :: u32
  DepthOrArraySize :: u16
  MipLevels :: u16
  Format :: u32
  SampleCount :: u32
  SampleQuality :: u32
  Layout :: u32
  Flags :: u32

datatype D3D12_HEAP_TYPE = HEAP_TYPE_DEFAULT | HEAP_TYPE_UPLOAD | HEAP_TYPE_READBACK | HEAP_TYPE_CUSTOM

record D3D12_HEAP_PROPERTIES =
  HeapType :: D3D12_HEAP_TYPE
  CPUPageProperty :: u32
  MemoryPoolPreference :: u32
  CreationNodeMask :: u32
  VisibleNodeMask :: u32

record VkMemoryRequirements =
  req_size :: u64
  req_alignment :: u64
  memoryTypeBits :: u32

record D3D12_RESOURCE_ALLOCATION_INFO =
  SizeInBytes :: u64
  InfoAlignment :: u64

definition D3D12_DEFAULT_RESOURCE_PLACEMENT_ALIGNMENT :: u64 where
  "D3D12_DEFAULT_RESOURCE_PLACEMENT_ALIGNMENT = 65536"

text \<open>
  The device as this file sees it: the results of the calls that leave the file. An image
  handle is what \<^verbatim>\<open>vkd3d_create_image\<close> (the wrapper of \<^verbatim>\<open>vkCreateImage\<close>) returns for a
  heap-properties pointer (\<open>None\<close> for \<^verbatim>\<open>NULL\<close>), heap flags and a description;
  \<open>image_memory_requirements\<close> is \<^verbatim>\<open>vkGetImageMemoryRequirements\<close>. The validation
  functions (\<^verbatim>\<open>d3d12_resource_validate_desc\<close>, \<^verbatim>\<open>d3d12_resource_validate_create_info\<close>)
  depend on the device's format tables and are fields as well, so every theorem holds for
  whatever they compute. The remaining fields are the host allocation of the object, the
  private store, \<^verbatim>\<open>vkd3d_create_buffer\<close>, the \<^verbatim>\<open>VkResult\<close> of \<^verbatim>\<open>vkBindImageMemory\<close> (an
  integer, negative for an error), \<^verbatim>\<open>hresult_from_vk_result\<close>, the shading-rate view
  (\<^verbatim>\<open>vkd3d_resource_can_be_vrs\<close>, \<^verbatim>\<open>vkd3d_resource_make_vrs_view\<close>) and the device feature
  \<^verbatim>\<open>bufferDeviceAddress\<close>.
\<close>

record d3d12_device =
  max_miplevel_count :: "D3D12_RESOURCE_DESC \<Rightarrow> u16"
  validate_desc :: "D3D12_RESOURCE_DESC \<Rightarrow> HRESULT"
  create_image ::
    "D3D12_HEAP_PROPERTIES option \<Rightarrow> u32 \<Rightarrow> D3D12_RESOURCE_DESC \<Rightarrow> HRESULT \<times> u64"
  image_memory_requirements :: "u64 \<Rightarrow> VkMemoryRequirements"
  validate_create_info ::
    "D3D12_RESOURCE_DESC \<Rightarrow> D3D12_HEAP_PROPERTIES option \<Rightarrow> u32 \<Rightarrow> HRESULT"
  malloc_object_ok :: bool
  private_store_init :: HRESULT
  create_buffer :: "D3D12_HEAP_PROPERTIES option \<Rightarrow> D3D12_RESOURCE_DESC \<Rightarrow> HRESULT \<times> u64"
  bind_image_memory :: "u64 \<Rightarrow> u64 \<Rightarrow> u64 \<Rightarrow> int"
  hresult_from_vk_result :: "int \<Rightarrow> HRESULT"
  can_be_vrs :: "D3D12_HEAP_PROPERTIES \<Rightarrow> D3D12_RESOURCE_DESC \<Rightarrow> bool"
  make_vrs_view :: "u64 \<Rightarrow> HRESULT \<times> u64"
  bufferDeviceAddress :: bool

definition default_heap_properties :: D3D12_HEAP_PROPERTIES where
  "default_heap_properties =
     \<lparr>HeapType = HEAP_TYPE_DEFAULT, CPUPageProperty = 0, MemoryPoolPreference = 0,
      CreationNodeMask = 0, VisibleNodeMask = 0\<rparr>"

text \<open>
  \<^verbatim>\<open>vkd3d_get_image_allocation_info\<close>. The two \<^verbatim>\<open>assert\<close>s are the \<open>None\<close> result; the
  out-parameter \<^verbatim>\<open>allocation_info\<close> is passed in and returned, so the early return on a
  failed image creation leaves it as it was.
\<close>

definition vkd3d_get_image_allocation_info ::
  "d3d12_device \<Rightarrow> D3D12_RESOURCE_DESC \<Rightarrow> D3D12_RESOURCE_ALLOCATION_INFO
     \<Rightarrow> (HRESULT \<times> D3D12_RESOURCE_ALLOCATION_INFO) option" where
  "vkd3d_get_image_allocation_info device desc0 allocation_info =
     (if Dimension desc0 = DIMENSION_BUFFER \<or> validate_desc device desc0 \<noteq> S_OK then None
      else
        let desc = (if MipLevels desc0 = 0
                    then desc0\<lparr>MipLevels := max_miplevel_count device desc0\<rparr> else desc0);
            (hr, vk_image) = create_image device (Some default_heap_properties) 0 desc
        in if FAILED hr then Some (hr, allocation_info)
           else
             let requirements = image_memory_requirements device vk_image;
                 info = \<lparr>SizeInBytes = req_size requirements,
                         InfoAlignment = req_alignment requirements\<rparr>;
                 target_alignment = (if Alignment desc \<noteq> 0 then Alignment desc
                                     else D3D12_DEFAULT_RESOURCE_PLACEMENT_ALIGNMENT)
             in if InfoAlignment info > target_alignment
                then Some (hr, info\<lparr>SizeInBytes := SizeInBytes info
                                       + (InfoAlignment info - target_alignment),
                                    InfoAlignment := target_alignment\<rparr>)
                else Some (hr, info))"

text \<open>The image the query creates, and the alignment it compares against.\<close>

definition allocation_query_desc :: "d3d12_device \<Rightarrow> D3D12_RESOURCE_DESC \<Rightarrow> D3D12_RESOURCE_DESC" where
  "allocation_query_desc device desc0 =
     (if MipLevels desc0 = 0 then desc0\<lparr>MipLevels := max_miplevel_count device desc0\<rparr>
      else desc0)"

definition target_alignment_of :: "D3D12_RESOURCE_DESC \<Rightarrow> u64" where
  "target_alignment_of desc =
     (if Alignment desc \<noteq> 0 then Alignment desc else D3D12_DEFAULT_RESOURCE_PLACEMENT_ALIGNMENT)"

section \<open>Sparse tiling of reserved buffers\<close>

text \<open>
  Modelled from the spec: \<^verbatim>\<open>align\<close> (declared in \<^verbatim>\<open>vkd3d_common.h\<close>, which is not among
  the sources). The spec's word is "re-aligned upward": the least multiple of the alignment
  that is not below the address, computed in 64 bits.
\<close>

definition align :: "u64 \<Rightarrow> u64 \<Rightarrow> u64" where
  "align addr alignment = ((addr + (alignment - 1)) div alignment) * alignment"

text \<open>
  Modelled from the spec: \<^verbatim>\<open>VKD3D_TILE_SIZE\<close> (a macro of \<^verbatim>\<open>vkd3d_private.h\<close>), the glossary's
  64KB tile. It is an \<^verbatim>\<open>int\<close> literal, so it takes the width of the expression it stands in.
\<close>

definition VKD3D_TILE_SIZE :: "'a::len word" where
  "VKD3D_TILE_SIZE = 65536"

datatype vkd3d_resource_flag =
  VKD3D_RESOURCE_COMMITTED | VKD3D_RESOURCE_PLACED | VKD3D_RESOURCE_RESERVED
  | VKD3D_RESOURCE_ALLOCATION | VKD3D_RESOURCE_LINEAR_TILING | VKD3D_RESOURCE_EXTERNAL
  | VKD3D_RESOURCE_ACCELERATION_STRUCTURE | VKD3D_RESOURCE_SIMULTANEOUS_ACCESS

record D3D12_PACKED_MIP_INFO =
  NumStandardMips :: u32
  NumPackedMips :: u32
  NumTilesForPackedMips :: u32
  PackedStartTileIndex :: u32

record D3D12_TILE_SHAPE =
  WidthInTexels :: u32
  HeightInTexels :: u32
  DepthInTexels :: u32

record D3D12_SUBRESOURCE_TILING =
  WidthInTiles :: u32
  HeightInTiles :: u16
  DepthInTiles :: u16
  StartTileIndexInOverallResource :: u32

text \<open>
  A tile is a byte range (buffers and packed mip tails) or an image region, the C union, with
  the memory bound to it.
\<close>

record d3d12_sparse_image_region =
  subresource_index :: u32
  region_offset :: "u32 \<times> u32 \<times> u32"
  region_extent :: "u32 \<times> u32 \<times> u32"

datatype d3d12_sparse_region =
  BufferRegion u64 u64
  | ImageRegion d3d12_sparse_image_region

record d3d12_sparse_tile =
  region :: d3d12_sparse_region
  vk_memory :: u64
  vk_offset :: u64

definition VK_NULL_HANDLE :: u64 where
  "VK_NULL_HANDLE = 0"

record tiling_result =
  total_tile_count :: u32
  packed_mip_info :: D3D12_PACKED_MIP_INFO
  tile_shape :: D3D12_TILE_SHAPE
  tilings :: "D3D12_SUBRESOURCE_TILING list"

text \<open>
  \<^verbatim>\<open>d3d12_resource_get_tiling\<close>. The buffer branch is embedded as written: \<^verbatim>\<open>tile_count\<close> is an
  \<^verbatim>\<open>unsigned int\<close>, so the 64-bit quotient is cut to 32 bits, and \<^verbatim>\<open>tilings[0]\<close> is stored
  into the caller's array. The texture branch asks the driver for the sparse requirements of
  the image; its result is the parameter \<open>image_tiling\<close>.
\<close>

definition d3d12_resource_get_tiling ::
  "D3D12_RESOURCE_DESC \<Rightarrow> tiling_result \<Rightarrow> D3D12_SUBRESOURCE_TILING list \<Rightarrow> tiling_result" where
  "d3d12_resource_get_tiling desc image_tiling tilings0 =
     (if Dimension desc = DIMENSION_BUFFER
      then
        let tile_count = (ucast (align (Width desc) VKD3D_TILE_SIZE div VKD3D_TILE_SIZE) :: u32)
        in \<lparr>total_tile_count = tile_count,
            packed_mip_info = \<lparr>NumStandardMips = 0, NumPackedMips = 0,
                                NumTilesForPackedMips = 0, PackedStartTileIndex = 0\<rparr>,
            tile_shape = \<lparr>WidthInTexels = VKD3D_TILE_SIZE, HeightInTexels = 1,
                           DepthInTexels = 1\<rparr>,
            tilings = tilings0[0 := \<lparr>WidthInTiles = tile_count, HeightInTiles = 1,
                                     DepthInTiles = 1, StartTileIndexInOverallResource = 0\<rparr>]\<rparr>
      else image_tiling)"

text \<open>
  One iteration of the tile loop of \<^verbatim>\<open>d3d12_resource_init_sparse_info\<close> for a buffer:
  \<^verbatim>\<open>VKD3D_TILE_SIZE * i\<close> is a product of an \<^verbatim>\<open>int\<close> literal and the \<^verbatim>\<open>unsigned int\<close> index,
  taken in 32 bits and widened to \<^verbatim>\<open>VkDeviceSize\<close>; the tile starts with no memory.
\<close>

definition buffer_tile :: "u64 \<Rightarrow> u32 \<Rightarrow> d3d12_sparse_tile" where
  "buffer_tile width i =
     (let offset = (ucast ((VKD3D_TILE_SIZE :: u32) * i) :: u64)
      in \<lparr>region = BufferRegion offset (min VKD3D_TILE_SIZE (width - offset)),
          vk_memory = VK_NULL_HANDLE, vk_offset = 0\<rparr>)"

lemma word_less_unat_Suc:
  fixes i n :: "'a::len word"
  assumes "i < n"
  shows "unat (i + 1) = unat i + 1"
proof -
  have "unat i < unat n"
    using assms by (simp add: word_less_nat_alt)
  moreover have "unat n < 2 ^ LENGTH('a)"
    by simp
  ultimately have "unat i + 1 < 2 ^ LENGTH('a)"
    by linarith
  then show ?thesis
    by (simp add: unat_word_ariths)
qed

text \<open>
  The loop \<^verbatim>\<open>for (i = 0; i < sparse->tile_count; i++)\<close>, one tile appended per iteration.
  For a texture the tile is the parameter \<open>image_tile\<close> (the region walk over the
  subresources), with the same reset of the binding.
\<close>

function init_sparse_tiles ::
  "bool \<Rightarrow> u64 \<Rightarrow> (u32 \<Rightarrow> d3d12_sparse_region) \<Rightarrow> u32 \<Rightarrow> u32 \<Rightarrow> d3d12_sparse_tile list
     \<Rightarrow> d3d12_sparse_tile list" where
  "init_sparse_tiles is_buffer width image_tile i tile_count tiles =
     (if i < tile_count
      then init_sparse_tiles is_buffer width image_tile (i + 1) tile_count
             (tiles @ [if is_buffer then buffer_tile width i
                       else \<lparr>region = image_tile i, vk_memory = VK_NULL_HANDLE, vk_offset = 0\<rparr>])
      else tiles)"
  by pat_completeness auto
termination
proof (relation "measure (\<lambda>(is_buffer, width, image_tile, i, tile_count, tiles).
                            unat tile_count - unat i)")
  show "wf (measure (\<lambda>(is_buffer, width, image_tile, i, tile_count, tiles).
                            unat tile_count - unat i))"
    by simp
next
  fix is_buffer :: bool and width :: u64 and image_tile :: "u32 \<Rightarrow> d3d12_sparse_region"
    and i tile_count :: u32 and tiles :: "d3d12_sparse_tile list"
  assume lt: "i < tile_count"
  then have "unat i < unat tile_count"
    by (simp add: word_less_nat_alt)
  moreover have "unat (i + 1) = unat i + 1"
    using lt by (rule word_less_unat_Suc)
  ultimately show "((is_buffer, width, image_tile, i + 1, tile_count,
                     tiles @ [if is_buffer then buffer_tile width i
                       else \<lparr>region = image_tile i, vk_memory = VK_NULL_HANDLE, vk_offset = 0\<rparr>]),
                    (is_buffer, width, image_tile, i, tile_count, tiles))
                   \<in> measure (\<lambda>(is_buffer, width, image_tile, i, tile_count, tiles).
                            unat tile_count - unat i)"
    by simp
qed

declare init_sparse_tiles.simps [simp del]

record d3d12_sparse_info =
  tiling_count :: u32
  tile_count :: u32
  sparse_tilings :: "D3D12_SUBRESOURCE_TILING list"
  sparse_tiles :: "d3d12_sparse_tile list"
  sparse_tile_shape :: D3D12_TILE_SHAPE
  packed_mips :: D3D12_PACKED_MIP_INFO
  vk_metadata_memory :: u64

definition zero_sparse_info :: d3d12_sparse_info where
  "zero_sparse_info =
     \<lparr>tiling_count = 0, tile_count = 0, sparse_tilings = [], sparse_tiles = [],
      sparse_tile_shape = \<lparr>WidthInTexels = 0, HeightInTexels = 0, DepthInTexels = 0\<rparr>,
      packed_mips = \<lparr>NumStandardMips = 0, NumPackedMips = 0, NumTilesForPackedMips = 0,
                      PackedStartTileIndex = 0\<rparr>,
      vk_metadata_memory = 0\<rparr>"

text \<open>
  What \<^verbatim>\<open>d3d12_resource_init_sparse_info\<close> reads from outside the file: whether the two
  \<^verbatim>\<open>vkd3d_malloc\<close> calls succeed, the subresource count, the uninitialised tiling array that
  \<^verbatim>\<open>vkd3d_malloc\<close> returns, the texture branch of the tiling query and of the tile loop, and
  the result of binding the metadata aspect of an image.
\<close>

record sparse_env =
  malloc_tilings_ok :: bool
  malloc_tiles_ok :: bool
  sub_resource_count_per_plane :: u32
  fresh_tilings :: "D3D12_SUBRESOURCE_TILING list"
  env_image_tiling :: tiling_result
  env_image_tile :: "u32 \<Rightarrow> d3d12_sparse_region"
  bind_image_metadata :: HRESULT

text \<open>
  \<^verbatim>\<open>d3d12_resource_init_sparse_info\<close>, from the \<^verbatim>\<open>memset\<close> to the final return;
  \<^verbatim>\<open>d3d12_resource_bind_sparse_metadata\<close> returns \<^verbatim>\<open>S_OK\<close> at once for a buffer.
\<close>

definition d3d12_resource_init_sparse_info ::
  "sparse_env \<Rightarrow> vkd3d_resource_flag set \<Rightarrow> D3D12_RESOURCE_DESC \<Rightarrow> HRESULT \<times> d3d12_sparse_info" where
  "d3d12_resource_init_sparse_info env flags desc =
     (let sparse = zero_sparse_info in
      if VKD3D_RESOURCE_RESERVED \<notin> flags then (S_OK, sparse)
      else
        let sparse = sparse\<lparr>tiling_count := sub_resource_count_per_plane env, tile_count := 0\<rparr> in
        if \<not> malloc_tilings_ok env then (E_OUTOFMEMORY, sparse)
        else
          let t = d3d12_resource_get_tiling desc (env_image_tiling env) (fresh_tilings env);
              sparse = sparse\<lparr>tile_count := total_tile_count t, packed_mips := packed_mip_info t,
                              sparse_tile_shape := tile_shape t, sparse_tilings := tilings t\<rparr>
          in if \<not> malloc_tiles_ok env then (E_OUTOFMEMORY, sparse)
             else
               let is_buffer = (Dimension desc = DIMENSION_BUFFER);
                   sparse = sparse\<lparr>sparse_tiles :=
                     init_sparse_tiles is_buffer (Width desc) (env_image_tile env) 0
                       (tile_count sparse) []\<rparr>;
                   hr = (if is_buffer then S_OK else bind_image_metadata env)
               in if FAILED hr then (hr, sparse) else (S_OK, sparse))"

text \<open>A concrete device and texture used to instantiate the theorems below.\<close>

definition example_texture_desc :: D3D12_RESOURCE_DESC where
  "example_texture_desc =
     \<lparr>Dimension = DIMENSION_TEXTURE2D, Alignment = 0, Width = 256, Height = 256,
      DepthOrArraySize = 1, MipLevels = 1, Format = 28, SampleCount = 1, SampleQuality = 0,
      Layout = 0, Flags = 0\<rparr>"

definition example_device :: d3d12_device where
  "example_device =
     \<lparr>max_miplevel_count = (\<lambda>_. 9),
      validate_desc = (\<lambda>_. S_OK),
      create_image = (\<lambda>_ _ _. (S_OK, 7)),
      image_memory_requirements =
        (\<lambda>_. \<lparr>req_size = 1048576, req_alignment = 131072, memoryTypeBits = 1\<rparr>),
      validate_create_info = (\<lambda>_ _ _. S_OK),
      malloc_object_ok = True,
      private_store_init = S_OK,
      create_buffer = (\<lambda>_ _. (S_OK, 8)),
      bind_image_memory = (\<lambda>_ _ _. 0),
      hresult_from_vk_result = (\<lambda>vr. if vr = 0 then S_OK else E_NATIVE vr),
      can_be_vrs = (\<lambda>_ _. False),
      make_vrs_view = (\<lambda>_. (S_OK, 0)),
      bufferDeviceAddress = False\<rparr>"

definition example_buffer_desc :: "u64 \<Rightarrow> D3D12_RESOURCE_DESC" where
  "example_buffer_desc w =
     \<lparr>Dimension = DIMENSION_BUFFER, Alignment = 0, Width = w, Height = 1,
      DepthOrArraySize = 1, MipLevels = 1, Format = 0, SampleCount = 1, SampleQuality = 0,
      Layout = 1, Flags = 0\<rparr>"

definition example_sparse_env :: sparse_env where
  "example_sparse_env =
     \<lparr>malloc_tilings_ok = True, malloc_tiles_ok = True, sub_resource_count_per_plane = 1,
      fresh_tilings = [\<lparr>WidthInTiles = 0, HeightInTiles = 0, DepthInTiles = 0,
                        StartTileIndexInOverallResource = 0\<rparr>],
      env_image_tiling = \<lparr>total_tile_count = 0,
         packed_mip_info = \<lparr>NumStandardMips = 0, NumPackedMips = 0, NumTilesForPackedMips = 0,
                             PackedStartTileIndex = 0\<rparr>,
         tile_shape = \<lparr>WidthInTexels = 0, HeightInTexels = 0, DepthInTexels = 0\<rparr>,
         tilings = []\<rparr>,
      env_image_tile = (\<lambda>_. BufferRegion 0 0),
      bind_image_metadata = S_OK\<rparr>"

section \<open>Descriptor slots and the null descriptor\<close>

datatype vkd3d_descriptor_flag =
  VKD3D_DESCRIPTOR_FLAG_VIEW | VKD3D_DESCRIPTOR_FLAG_RAW_VA_AUX_BUFFER
  | VKD3D_DESCRIPTOR_FLAG_BUFFER_OFFSET | VKD3D_DESCRIPTOR_FLAG_OFFSET_RANGE
  | VKD3D_DESCRIPTOR_FLAG_NON_NULL

text \<open>
  The slot metadata. \<^verbatim>\<open>flags\<close> is a bit mask over the five flags above; it is modelled as
  the set of flags that are on, so \<^verbatim>\<open>flags = 0\<close> is the empty set, \<^verbatim>\<open>flags & F\<close> is membership
  and \<^verbatim>\<open>flags |= F\<close> is insertion.
\<close>

record vkd3d_descriptor_data =
  cookie :: u64
  set_info_mask :: u32
  flags :: "vkd3d_descriptor_flag set"
  current_null_type :: u32

record VkDescriptorBufferInfo =
  buffer :: u64
  buffer_offset :: u64
  buffer_range :: u64

text \<open>
  The union \<^verbatim>\<open>info\<close> of a slot: zeroed, a buffer range, or a pointer to a view (its address).
\<close>

datatype d3d12_desc_info =
  Info_zero
  | Info_buffer VkDescriptorBufferInfo
  | Info_view nat

record d3d12_desc =
  metadata :: vkd3d_descriptor_data
  heap_offset :: u32
  info :: d3d12_desc_info

text \<open>
  What a native write carries: \<^verbatim>\<open>pImageInfo\<close>, \<^verbatim>\<open>pBufferInfo\<close> and \<^verbatim>\<open>pTexelBufferView\<close>
  all point into one \<^verbatim>\<open>union vkd3d_descriptor_info\<close>, or, for a write of the null template,
  to the template's null buffer, image and buffer view.
\<close>

datatype vkd3d_descriptor_info =
  Write_buffer VkDescriptorBufferInfo
  | Write_image u64 u64 u32
  | Write_buffer_view u64
  | Write_null_template

record VkWriteDescriptorSet =
  dstSet :: u64
  dstBinding :: u32
  dstArrayElement :: u32
  descriptorCount :: u32
  descriptorType :: u32
  write_info :: vkd3d_descriptor_info

definition VK_DESCRIPTOR_TYPE_SAMPLER :: u32 where "VK_DESCRIPTOR_TYPE_SAMPLER = 0"
definition VK_DESCRIPTOR_TYPE_SAMPLED_IMAGE :: u32 where "VK_DESCRIPTOR_TYPE_SAMPLED_IMAGE = 2"
definition VK_DESCRIPTOR_TYPE_STORAGE_IMAGE :: u32 where "VK_DESCRIPTOR_TYPE_STORAGE_IMAGE = 3"
definition VK_DESCRIPTOR_TYPE_UNIFORM_TEXEL_BUFFER :: u32 where
  "VK_DESCRIPTOR_TYPE_UNIFORM_TEXEL_BUFFER = 4"
definition VK_DESCRIPTOR_TYPE_STORAGE_TEXEL_BUFFER :: u32 where
  "VK_DESCRIPTOR_TYPE_STORAGE_TEXEL_BUFFER = 5"
definition VK_DESCRIPTOR_TYPE_UNIFORM_BUFFER :: u32 where "VK_DESCRIPTOR_TYPE_UNIFORM_BUFFER = 6"
definition VK_DESCRIPTOR_TYPE_STORAGE_BUFFER :: u32 where "VK_DESCRIPTOR_TYPE_STORAGE_BUFFER = 7"
definition VK_DESCRIPTOR_TYPE_MUTABLE_VALVE :: u32 where
  "VK_DESCRIPTOR_TYPE_MUTABLE_VALVE = 1000351000"

text \<open>
  The parts of a descriptor heap the write engine reads: the null template (its first
  \<^verbatim>\<open>num_writes\<close> writes are the list), the native sets by index, and whether the raw-VA side
  table is mapped (\<^verbatim>\<open>raw_va_aux_buffer.host_ptr\<close>).
\<close>

record null_descriptor_template =
  writes :: "VkWriteDescriptorSet list"
  template_set_info_mask :: u32
  has_mutable_descriptors :: bool

record d3d12_descriptor_heap =
  null_template :: null_descriptor_template
  vk_descriptor_sets :: "u32 \<Rightarrow> u64"
  has_raw_va_aux_buffer :: bool

text \<open>
  Native calls are recorded in the order they are made. \<^verbatim>\<open>vkUpdateDescriptorSets\<close> carries its
  array of writes (the file's descriptor-create paths pass no copies).
\<close>

datatype vk_call =
  vkUpdateDescriptorSets "VkWriteDescriptorSet list"

text \<open>
  The state a descriptor write acts on: the slot, the heap's raw-VA side table (a map from
  slot offsets to addresses) and the native calls made so far.
\<close>

record desc_state =
  slot :: d3d12_desc
  raw_va :: "u32 \<Rightarrow> u64"
  calls :: "vk_call list"

text \<open>
  \<^verbatim>\<open>d3d12_descriptor_heap_write_null_descriptor_template\<close>. The trailing notification to the
  descriptor-QA observer has no effect on the state modelled here.
\<close>

definition d3d12_descriptor_heap_write_null_descriptor_template ::
  "d3d12_descriptor_heap \<Rightarrow> u32 \<Rightarrow> desc_state \<Rightarrow> desc_state" where
  "d3d12_descriptor_heap_write_null_descriptor_template heap vk_mutable_descriptor_type0 st =
     (let desc = slot st;
          vk_mutable_descriptor_type =
            (if \<not> has_mutable_descriptors (null_template heap) then 0
             else vk_mutable_descriptor_type0)
      in if VKD3D_DESCRIPTOR_FLAG_NON_NULL \<notin> flags (metadata desc)
            \<and> current_null_type (metadata desc) = vk_mutable_descriptor_type
         then st
         else
           let offset = heap_offset desc;
               ws = map (\<lambda>w. w\<lparr>descriptorType :=
                                   (if descriptorType w = VK_DESCRIPTOR_TYPE_MUTABLE_VALVE
                                    then vk_mutable_descriptor_type else descriptorType w),
                                 dstArrayElement := offset\<rparr>)
                        (writes (null_template heap))
           in st\<lparr>calls := calls st @ [vkUpdateDescriptorSets ws],
                 slot := desc\<lparr>metadata :=
                                 \<lparr>cookie = 0,
                                  set_info_mask = template_set_info_mask (null_template heap),
                                  flags = {},
                                  current_null_type = vk_mutable_descriptor_type\<rparr>,
                               info := Info_zero\<rparr>,
                 raw_va := (if has_raw_va_aux_buffer heap then (raw_va st)(offset := 0)
                            else raw_va st)\<rparr>)"

section \<open>Constant buffer views\<close>

text \<open>
  \<^verbatim>\<open>struct vkd3d_unique_resource\<close>, as the VA map hands it out, and the bindless state of the
  device. \<^verbatim>\<open>vkd3d_va_map_deref\<close> and the \<^verbatim>\<open>vkd3d_bindless_state_*\<close> lookups live in other
  files; they are fields, so the theorems hold for every VA map and every set layout.
\<close>

record vkd3d_unique_resource =
  vk_buffer :: u64
  unique_cookie :: u64
  va :: u64
  unique_size :: u64

datatype vkd3d_bindless_set_flag =
  VKD3D_BINDLESS_SET_SAMPLER | VKD3D_BINDLESS_SET_CBV | VKD3D_BINDLESS_SET_SRV
  | VKD3D_BINDLESS_SET_UAV | VKD3D_BINDLESS_SET_IMAGE | VKD3D_BINDLESS_SET_BUFFER
  | VKD3D_BINDLESS_SET_AUX_BUFFER | VKD3D_BINDLESS_SET_RAW_SSBO

record vkd3d_descriptor_binding =
  binding_set :: u32
  binding :: u32

record vkd3d_bindless_state =
  get_cbv_descriptor_type :: u32
  find_set_info_index :: "vkd3d_bindless_set_flag set \<Rightarrow> u32"
  binding_from_info_index :: "u32 \<Rightarrow> vkd3d_descriptor_binding"

record D3D12_CONSTANT_BUFFER_VIEW_DESC =
  BufferLocation :: u64
  SizeInBytes_cbv :: u32

definition D3D12_CONSTANT_BUFFER_DATA_PLACEMENT_ALIGNMENT :: u32 where
  "D3D12_CONSTANT_BUFFER_DATA_PLACEMENT_ALIGNMENT = 256"

definition vkd3d_init_write_descriptor_set ::
  "d3d12_descriptor_heap \<Rightarrow> d3d12_desc \<Rightarrow> vkd3d_descriptor_binding \<Rightarrow> u32
     \<Rightarrow> vkd3d_descriptor_info \<Rightarrow> VkWriteDescriptorSet" where
  "vkd3d_init_write_descriptor_set heap descriptor b vk_descriptor_type descriptor_info =
     \<lparr>dstSet = vk_descriptor_sets heap (binding_set b),
      dstBinding = binding b,
      dstArrayElement = heap_offset descriptor,
      descriptorCount = 1,
      descriptorType = vk_descriptor_type,
      write_info = descriptor_info\<rparr>"

text \<open>
  \<^verbatim>\<open>d3d12_desc_create_cbv\<close>. \<open>desc\<close> is \<open>None\<close> for a \<^verbatim>\<open>NULL\<close> description. The result is
  \<open>None\<close> when the VA map knows no resource for the address: the code dereferences the
  pointer \<^verbatim>\<open>vkd3d_va_map_deref\<close> returned before it tests it.
\<close>

definition d3d12_desc_create_cbv ::
  "vkd3d_bindless_state \<Rightarrow> (u64 \<Rightarrow> vkd3d_unique_resource option) \<Rightarrow> d3d12_descriptor_heap
     \<Rightarrow> D3D12_CONSTANT_BUFFER_VIEW_DESC option \<Rightarrow> desc_state \<Rightarrow> desc_state option" where
  "d3d12_desc_create_cbv bindless va_map_deref heap desc_opt st =
     (case desc_opt of
        None \<Rightarrow> Some st
      | Some desc \<Rightarrow>
          if SizeInBytes_cbv desc AND (D3D12_CONSTANT_BUFFER_DATA_PLACEMENT_ALIGNMENT - 1) \<noteq> 0
          then Some st
          else
            let vk_descriptor_type = get_cbv_descriptor_type bindless in
            if BufferLocation desc = 0
            then Some (d3d12_descriptor_heap_write_null_descriptor_template heap
                         vk_descriptor_type st)
            else
              (case va_map_deref (BufferLocation desc) of
                 None \<Rightarrow> None
               | Some resource \<Rightarrow>
                   let off = BufferLocation desc - va resource;
                       buffer_info =
                         \<lparr>buffer = vk_buffer resource, buffer_offset = off,
                          buffer_range = min (ucast (SizeInBytes_cbv desc))
                                             (unique_size resource - off)\<rparr>;
                       info_index = find_set_info_index bindless {VKD3D_BINDLESS_SET_CBV};
                       descriptor = (slot st)
                         \<lparr>metadata := (metadata (slot st))
                            \<lparr>cookie := unique_cookie resource,
                             set_info_mask := push_bit (unat info_index) 1,
                             flags := {VKD3D_DESCRIPTOR_FLAG_OFFSET_RANGE,
                                       VKD3D_DESCRIPTOR_FLAG_NON_NULL}\<rparr>,
                          info := Info_buffer buffer_info\<rparr>;
                       vk_write = vkd3d_init_write_descriptor_set heap descriptor
                         (binding_from_info_index bindless info_index) vk_descriptor_type
                         (Write_buffer buffer_info)
                   in Some (st\<lparr>slot := descriptor,
                                calls := calls st @ [vkUpdateDescriptorSets [vk_write]]\<rparr>)))"

text \<open>
  The placeholder subtype a null write works with: the caller's on a heap whose null
  template has mutable descriptors, the dummy type 0 otherwise.
\<close>

definition effective_null_type :: "d3d12_descriptor_heap \<Rightarrow> u32 \<Rightarrow> u32" where
  "effective_null_type heap vk_mutable_descriptor_type =
     (if has_mutable_descriptors (null_template heap) then vk_mutable_descriptor_type else 0)"

text \<open>Concrete heaps, a device layout, a VA map and a fresh slot for the instances below.\<close>

definition example_template :: "bool \<Rightarrow> null_descriptor_template" where
  "example_template mutable =
     \<lparr>writes =
        [\<lparr>dstSet = 100, dstBinding = 0, dstArrayElement = 0, descriptorCount = 1,
          descriptorType = (if mutable then VK_DESCRIPTOR_TYPE_MUTABLE_VALVE
                            else VK_DESCRIPTOR_TYPE_SAMPLED_IMAGE),
          write_info = Write_null_template\<rparr>,
         \<lparr>dstSet = 101, dstBinding = 0, dstArrayElement = 0, descriptorCount = 1,
          descriptorType = VK_DESCRIPTOR_TYPE_STORAGE_BUFFER,
          write_info = Write_null_template\<rparr>],
      template_set_info_mask = 3,
      has_mutable_descriptors = mutable\<rparr>"

definition example_heap :: "bool \<Rightarrow> d3d12_descriptor_heap" where
  "example_heap mutable =
     \<lparr>null_template = example_template mutable,
      vk_descriptor_sets = (\<lambda>i. 100 + ucast i),
      has_raw_va_aux_buffer = True\<rparr>"

definition example_fresh_state :: desc_state where
  "example_fresh_state =
     \<lparr>slot = \<lparr>metadata = \<lparr>cookie = 0, set_info_mask = 3, flags = {}, current_null_type = 0\<rparr>,
              heap_offset = 4, info = Info_zero\<rparr>,
      raw_va = (\<lambda>_. 0),
      calls = []\<rparr>"

definition example_bindless :: vkd3d_bindless_state where
  "example_bindless =
     \<lparr>get_cbv_descriptor_type = VK_DESCRIPTOR_TYPE_UNIFORM_BUFFER,
      find_set_info_index = (\<lambda>_. 2),
      binding_from_info_index = (\<lambda>i. \<lparr>binding_set = i, binding = 0\<rparr>)\<rparr>"

definition example_va_map :: "u64 \<Rightarrow> vkd3d_unique_resource option" where
  "example_va_map a =
     (if 65536 \<le> a \<and> a < 131072
      then Some \<lparr>vk_buffer = 77, unique_cookie = 5, va = 65536, unique_size = 65536\<rparr>
      else None)"

definition example_cbv_desc :: D3D12_CONSTANT_BUFFER_VIEW_DESC where
  "example_cbv_desc = \<lparr>BufferLocation = 65792, SizeInBytes_cbv = 256\<rparr>"

definition example_cbv_write :: VkWriteDescriptorSet where
  "example_cbv_write =
     \<lparr>dstSet = 102, dstBinding = 0, dstArrayElement = 4, descriptorCount = 1,
      descriptorType = VK_DESCRIPTOR_TYPE_UNIFORM_BUFFER,
      write_info = Write_buffer \<lparr>buffer = 77, buffer_offset = 256, buffer_range = 256\<rparr>\<rparr>"

section \<open>Resources: creation, reference counts and destruction\<close>



record d3d12_resource =
  refcount :: u32
  internal_refcount :: u32
  res_desc :: D3D12_RESOURCE_DESC
  res_flags :: "vkd3d_resource_flag set"
  res_cookie :: u64
  res_vk_handle :: u64
  res_va :: u64
  res_size :: u64
  res_heap_properties :: "D3D12_HEAP_PROPERTIES option"
  res_heap_flags :: u32
  initial_state :: u32
  mem_vk_memory :: u64
  mem_offset :: u64
  vrs_view :: u64
  sparse :: d3d12_sparse_info

text \<open>
  The calls a resource makes on its collaborators, in order: the device's reference count,
  the view map, the debug registry, the allocator, the VA map and the native destroy calls.
\<close>

datatype res_event =
  Device_add_ref | Device_release
  | View_map_destroy | Debug_register_cookie u64 | Debug_unregister_cookie u64
  | Free_sparse_metadata | Free_tiles | Free_tilings
  | Va_map_remove | Va_map_free_fake_va u64 u64
  | VkDestroyImage u64 | VkDestroyBuffer u64 | Free_memory u64 | VkDestroyImageView u64
  | Private_store_destroy | Free_resource

definition d3d12_resource_is_texture :: "d3d12_resource \<Rightarrow> bool" where
  "d3d12_resource_is_texture resource = (Dimension (res_desc resource) \<noteq> DIMENSION_BUFFER)"

text \<open>
  \<^verbatim>\<open>d3d12_resource_destroy\<close>, as the list of calls it makes; the last one frees the object.
  \<open>bda\<close> is the device feature \<^verbatim>\<open>bufferDeviceAddress\<close>.
\<close>

definition d3d12_resource_destroy :: "bool \<Rightarrow> d3d12_resource \<Rightarrow> res_event list" where
  "d3d12_resource_destroy bda resource =
     [View_map_destroy, Debug_unregister_cookie (res_cookie resource)]
     @ (if VKD3D_RESOURCE_EXTERNAL \<in> res_flags resource then []
        else
          (if VKD3D_RESOURCE_RESERVED \<in> res_flags resource
           then [Free_sparse_metadata, Free_tiles, Free_tilings]
                @ (if res_va resource \<noteq> 0
                   then [Va_map_remove]
                        @ (if \<not> bda then [Va_map_free_fake_va (res_va resource) (res_size resource)]
                           else [])
                   else [])
           else [])
          @ (if d3d12_resource_is_texture resource then [VkDestroyImage (res_vk_handle resource)]
             else if VKD3D_RESOURCE_RESERVED \<in> res_flags resource
             then [VkDestroyBuffer (res_vk_handle resource)]
             else [])
          @ (if VKD3D_RESOURCE_ALLOCATION \<in> res_flags resource \<and> mem_vk_memory resource \<noteq> 0
             then [Free_memory (mem_vk_memory resource)] else [])
          @ (if vrs_view resource \<noteq> 0 then [VkDestroyImageView (vrs_view resource)] else [])
          @ [Private_store_destroy, Device_release, Free_resource])"

text \<open>
  A resource together with the calls made so far. The four counting functions return the new
  count, as the C functions do, and the state after the call.
\<close>

record resource_state =
  resource :: d3d12_resource
  events :: "res_event list"

definition d3d12_resource_incref :: "resource_state \<Rightarrow> u32 \<times> resource_state" where
  "d3d12_resource_incref st =
     (let r = internal_refcount (resource st) + 1
      in (r, st\<lparr>resource := (resource st)\<lparr>internal_refcount := r\<rparr>\<rparr>))"

definition d3d12_resource_decref :: "bool \<Rightarrow> resource_state \<Rightarrow> u32 \<times> resource_state" where
  "d3d12_resource_decref bda st =
     (let r = internal_refcount (resource st) - 1;
          st1 = st\<lparr>resource := (resource st)\<lparr>internal_refcount := r\<rparr>\<rparr>
      in if r = 0
         then (r, st1\<lparr>events := events st1 @ d3d12_resource_destroy bda (resource st1)\<rparr>)
         else (r, st1))"

definition d3d12_resource_AddRef :: "resource_state \<Rightarrow> u32 \<times> resource_state" where
  "d3d12_resource_AddRef st =
     (let r = refcount (resource st) + 1;
          st1 = st\<lparr>resource := (resource st)\<lparr>refcount := r\<rparr>\<rparr>
      in if r = 1
         then (r, snd (d3d12_resource_incref (st1\<lparr>events := events st1 @ [Device_add_ref]\<rparr>)))
         else (r, st1))"

definition d3d12_resource_Release :: "bool \<Rightarrow> resource_state \<Rightarrow> u32 \<times> resource_state" where
  "d3d12_resource_Release bda st =
     (let r = refcount (resource st) - 1;
          st1 = st\<lparr>resource := (resource st)\<lparr>refcount := r\<rparr>\<rparr>
      in if r = 0 then (r, snd (d3d12_resource_decref bda st1)) else (r, st1))"

text \<open>
  A committed texture as \<^verbatim>\<open>d3d12_resource_create_committed\<close> leaves it, with one further
  internal reference taken through \<^verbatim>\<open>vkd3d_resource_incref\<close>.
\<close>

definition example_resource :: d3d12_resource where
  "example_resource =
     \<lparr>refcount = 1, internal_refcount = 2, res_desc = example_texture_desc,
      res_flags = {VKD3D_RESOURCE_COMMITTED, VKD3D_RESOURCE_ALLOCATION},
      res_cookie = 1, res_vk_handle = 7, res_va = 0, res_size = 0,
      res_heap_properties = Some default_heap_properties, res_heap_flags = 0,
      initial_state = 0, mem_vk_memory = 9, mem_offset = 0, vrs_view = 0,
      sparse = zero_sparse_info\<rparr>"

definition example_resource_state :: resource_state where
  "example_resource_state =
     \<lparr>resource = example_resource, events = [Device_add_ref, Debug_register_cookie 1]\<rparr>"

text \<open>The example after its last public reference is released, and after it is revived.\<close>

definition example_released_state :: resource_state where
  "example_released_state =
     example_resource_state
       \<lparr>resource := example_resource\<lparr>refcount := 0, internal_refcount := 1\<rparr>\<rparr>"

definition example_revived_state :: resource_state where
  "example_revived_state =
     example_resource_state
       \<lparr>resource := example_resource\<lparr>refcount := 1, internal_refcount := 2\<rparr>,
        events := [Device_add_ref, Debug_register_cookie 1, Device_add_ref]\<rparr>"

section \<open>Resource creation and placement\<close>


















section \<open>The view cache\<close>




text \<open>
  View keys. \<^verbatim>\<open>struct vkd3d_view_key\<close> is a tag and a union; the constructor is the tag and
  carries the union member the tag selects. Format pointers are addresses.
\<close>

datatype vkd3d_view_type =
  VKD3D_VIEW_TYPE_BUFFER | VKD3D_VIEW_TYPE_IMAGE | VKD3D_VIEW_TYPE_SAMPLER
  | VKD3D_VIEW_TYPE_ACCELERATION_STRUCTURE

record vkd3d_buffer_view_desc =
  bv_buffer :: u64
  bv_format :: u64
  bv_offset :: u64
  bv_size :: u64

record VkComponentMapping =
  comp_r :: u32
  comp_g :: u32
  comp_b :: u32
  comp_a :: u32

record vkd3d_texture_view_desc =
  tv_image :: u64
  tv_view_type :: u32
  tv_aspect_mask :: u32
  tv_format :: u64
  tv_miplevel_idx :: u32
  tv_miplevel_count :: u32
  tv_layer_idx :: u32
  tv_layer_count :: u32
  tv_miplevel_clamp :: u32
  tv_components :: VkComponentMapping
  tv_allowed_swizzle :: bool

record D3D12_SAMPLER_DESC =
  Filter :: u32
  AddressU :: u32
  AddressV :: u32
  AddressW :: u32
  MipLODBias :: u32
  MaxAnisotropy :: u32
  ComparisonFunc :: u32
  BorderColor :: "u32 list"
  MinLOD :: u32
  MaxLOD :: u32

datatype vkd3d_view_key =
  Key_buffer vkd3d_buffer_view_desc
  | Key_acceleration_structure vkd3d_buffer_view_desc
  | Key_image vkd3d_texture_view_desc
  | Key_sampler D3D12_SAMPLER_DESC












text \<open>
  View objects live in a heap: a pointer is an index into \<open>live_views\<close>, \<^verbatim>\<open>vkd3d_malloc\<close>
  extends the heap by one object and \<^verbatim>\<open>vkd3d_free\<close> empties its place. The world also holds
  the global cookie counter, the entries of the resource's view map and the native and
  debug calls made so far.
\<close>

record vkd3d_view =
  view_refcount :: u32
  view_type :: vkd3d_view_type
  view_cookie :: u64
  vk_view_handle :: u64
































section \<open>Shader resource and unordered access views\<close>

text \<open>
  The descriptions, with the members of their unions side by side, and the few enumeration
  values the two functions test.
\<close>

record D3D12_SHADER_RESOURCE_VIEW_DESC =
  srv_Format :: u32
  srv_ViewDimension :: u32
  srv_Location :: u64
  srv_FirstElement :: u64
  srv_NumElements :: u32
  srv_StructureByteStride :: u32
  srv_Flags :: u32

record D3D12_UNORDERED_ACCESS_VIEW_DESC =
  uav_Format :: u32
  uav_ViewDimension :: u32
  uav_MipSlice :: u32
  uav_FirstArraySlice :: u32
  uav_ArraySize :: u32
  uav_PlaneSlice :: u32
  uav_FirstWSlice :: u32
  uav_WSize :: u32

definition D3D12_SRV_DIMENSION_BUFFER :: u32 where "D3D12_SRV_DIMENSION_BUFFER = 1"
definition D3D12_SRV_DIMENSION_RAYTRACING_ACCELERATION_STRUCTURE :: u32 where
  "D3D12_SRV_DIMENSION_RAYTRACING_ACCELERATION_STRUCTURE = 11"

definition D3D12_UAV_DIMENSION_TEXTURE1D :: u32 where "D3D12_UAV_DIMENSION_TEXTURE1D = 2"
definition D3D12_UAV_DIMENSION_TEXTURE1DARRAY :: u32 where
  "D3D12_UAV_DIMENSION_TEXTURE1DARRAY = 3"
definition D3D12_UAV_DIMENSION_TEXTURE2D :: u32 where "D3D12_UAV_DIMENSION_TEXTURE2D = 4"
definition D3D12_UAV_DIMENSION_TEXTURE2DARRAY :: u32 where
  "D3D12_UAV_DIMENSION_TEXTURE2DARRAY = 5"
definition D3D12_UAV_DIMENSION_TEXTURE3D :: u32 where "D3D12_UAV_DIMENSION_TEXTURE3D = 8"

definition VK_IMAGE_VIEW_TYPE_1D :: u32 where "VK_IMAGE_VIEW_TYPE_1D = 0"
definition VK_IMAGE_VIEW_TYPE_2D :: u32 where "VK_IMAGE_VIEW_TYPE_2D = 1"
definition VK_IMAGE_VIEW_TYPE_3D :: u32 where "VK_IMAGE_VIEW_TYPE_3D = 2"
definition VK_IMAGE_VIEW_TYPE_1D_ARRAY :: u32 where "VK_IMAGE_VIEW_TYPE_1D_ARRAY = 4"
definition VK_IMAGE_VIEW_TYPE_2D_ARRAY :: u32 where "VK_IMAGE_VIEW_TYPE_2D_ARRAY = 5"
definition VK_COMPONENT_SWIZZLE_IDENTITY :: u32 where "VK_COMPONENT_SWIZZLE_IDENTITY = 0"
definition VK_IMAGE_LAYOUT_GENERAL :: u32 where "VK_IMAGE_LAYOUT_GENERAL = 1"

text \<open>
  What the two functions take from outside: the device features and bindless flags they
  test, the format table (a format pointer is an address, 0 for \<^verbatim>\<open>NULL\<close>), the layer count of
  a description, and three calls whose results only are used here:
  \<^verbatim>\<open>vkd3d_buffer_view_get_bound_range_ssbo\<close>, \<^verbatim>\<open>vkd3d_buffer_view_get_aligned_view\<close> (the
  pointer to the view and the view, or \<open>None\<close> when it returns false) and
  \<^verbatim>\<open>vkd3d_view_map_create_view\<close> on the view map of the resource (\<open>None\<close> for \<^verbatim>\<open>NULL\<close>).
\<close>

record view_desc_env =
  supports_ray_tracing_tier_1_0 :: bool
  use_ssbo_raw_buffer :: bool
  ssbo_offset_buffer :: bool
  typed_offset_buffer :: bool
  bound_range_ssbo :: "d3d12_resource \<Rightarrow> D3D12_SHADER_RESOURCE_VIEW_DESC \<Rightarrow> VkDescriptorBufferInfo"
  aligned_view ::
    "d3d12_resource \<Rightarrow> D3D12_SHADER_RESOURCE_VIEW_DESC \<Rightarrow> (nat \<times> vkd3d_view) option"
  format_from_resource_desc :: "D3D12_RESOURCE_DESC \<Rightarrow> u32 \<Rightarrow> u64"
  format_aspect_mask :: "u64 \<Rightarrow> u32"
  format_is_compressed :: "u64 \<Rightarrow> bool"
  desc_layer_count :: "D3D12_RESOURCE_DESC \<Rightarrow> u32"
  aspect_flags_from_d3d12 :: "u64 \<Rightarrow> u32 \<Rightarrow> u32"
  map_create_view :: "d3d12_resource \<Rightarrow> vkd3d_view_key \<Rightarrow> (nat \<times> vkd3d_view) option"

text \<open>
  \<^verbatim>\<open>vkd3d_create_buffer_srv\<close> after its checks, for a buffer that exists (lines 3846 to 3923).
  The metadata is reset first; the storage-buffer write is prepared when the device uses
  raw storage buffers; then the typed view is asked for, and the function returns at once
  when it cannot be had; otherwise the typed write is added and all writes go out in one
  call. The side table of bound ranges (\<^verbatim>\<open>buffer_ranges\<close>) is not part of the state.
\<close>

definition buffer_srv_bind ::
  "view_desc_env \<Rightarrow> vkd3d_bindless_state \<Rightarrow> d3d12_descriptor_heap \<Rightarrow> d3d12_resource
     \<Rightarrow> D3D12_SHADER_RESOURCE_VIEW_DESC \<Rightarrow> desc_state \<Rightarrow> desc_state" where
  "buffer_srv_bind env bindless heap res desc st =
     (let d0 = (slot st)\<lparr>metadata := (metadata (slot st))\<lparr>set_info_mask := 0, flags := {}\<rparr>\<rparr>;
          ssbo_index = find_set_info_index bindless
                         {VKD3D_BINDLESS_SET_SRV, VKD3D_BINDLESS_SET_RAW_SSBO};
          ssbo_info = bound_range_ssbo env res desc;
          d1 = (if use_ssbo_raw_buffer env
                then d0\<lparr>info := Info_buffer ssbo_info,
                        metadata := (metadata d0)
                          \<lparr>cookie := res_cookie res,
                           set_info_mask := set_info_mask (metadata d0)
                                             OR push_bit (unat ssbo_index) 1,
                           flags := flags (metadata d0)
                                    \<union> {VKD3D_DESCRIPTOR_FLAG_OFFSET_RANGE,
                                        VKD3D_DESCRIPTOR_FLAG_NON_NULL}
                                    \<union> (if ssbo_offset_buffer env
                                        then {VKD3D_DESCRIPTOR_FLAG_BUFFER_OFFSET} else {})\<rparr>\<rparr>
                else d0);
          ssbo_writes = (if use_ssbo_raw_buffer env
                         then [vkd3d_init_write_descriptor_set heap d1
                                 (binding_from_info_index bindless ssbo_index)
                                 VK_DESCRIPTOR_TYPE_STORAGE_BUFFER (Write_buffer ssbo_info)]
                         else [])
      in case aligned_view env res desc of
           None \<Rightarrow> st\<lparr>slot := d1\<rparr>
         | Some v \<Rightarrow>
             let typed_index = find_set_info_index bindless
                                 {VKD3D_BINDLESS_SET_SRV, VKD3D_BINDLESS_SET_BUFFER};
                 d2 = d1\<lparr>info := Info_view (fst v),
                         metadata := (metadata d1)
                           \<lparr>cookie := view_cookie (snd v),
                            set_info_mask := set_info_mask (metadata d1)
                                              OR push_bit (unat typed_index) 1,
                            flags := flags (metadata d1)
                                     \<union> {VKD3D_DESCRIPTOR_FLAG_VIEW,
                                         VKD3D_DESCRIPTOR_FLAG_NON_NULL}
                                     \<union> (if typed_offset_buffer env
                                         then {VKD3D_DESCRIPTOR_FLAG_BUFFER_OFFSET}
                                         else {})\<rparr>\<rparr>
             in st\<lparr>slot := d2,
                   calls := calls st @
                     [vkUpdateDescriptorSets
                        (ssbo_writes @
                         [vkd3d_init_write_descriptor_set heap d2
                            (binding_from_info_index bindless typed_index)
                            VK_DESCRIPTOR_TYPE_UNIFORM_TEXEL_BUFFER
                            (Write_buffer_view (vk_view_handle (snd v)))])]\<rparr>)"

text \<open>
  \<^verbatim>\<open>vkd3d_create_buffer_srv\<close>. \<open>None\<close> arguments are \<^verbatim>\<open>NULL\<close> pointers. The result is \<open>None\<close> when
  an acceleration structure is bound on a heap without the raw-VA side table: the code
  writes through the table's pointer without a test.
\<close>

definition vkd3d_create_buffer_srv ::
  "view_desc_env \<Rightarrow> vkd3d_bindless_state \<Rightarrow> d3d12_descriptor_heap \<Rightarrow> d3d12_resource option
     \<Rightarrow> D3D12_SHADER_RESOURCE_VIEW_DESC option \<Rightarrow> desc_state \<Rightarrow> desc_state option" where
  "vkd3d_create_buffer_srv env bindless heap resource_opt desc_opt st =
     (case desc_opt of
        None \<Rightarrow> Some st
      | Some desc \<Rightarrow>
          if srv_ViewDimension desc = D3D12_SRV_DIMENSION_RAYTRACING_ACCELERATION_STRUCTURE
          then
            if srv_Location desc = 0
            then Some (d3d12_descriptor_heap_write_null_descriptor_template heap
                         VK_DESCRIPTOR_TYPE_SAMPLED_IMAGE st)
            else if supports_ray_tracing_tier_1_0 env
            then
              if \<not> has_raw_va_aux_buffer heap then None
              else Some (st\<lparr>raw_va := (raw_va st)(heap_offset (slot st) := srv_Location desc),
                            slot := (slot st)\<lparr>metadata := (metadata (slot st))
                               \<lparr>flags := {VKD3D_DESCRIPTOR_FLAG_RAW_VA_AUX_BUFFER,
                                          VKD3D_DESCRIPTOR_FLAG_NON_NULL},
                                set_info_mask := 0,
                                cookie := 0\<rparr>\<rparr>\<rparr>)
            else Some st
          else if srv_ViewDimension desc \<noteq> D3D12_SRV_DIMENSION_BUFFER then Some st
          else
            (case resource_opt of
               None \<Rightarrow> Some (d3d12_descriptor_heap_write_null_descriptor_template heap
                                VK_DESCRIPTOR_TYPE_UNIFORM_TEXEL_BUFFER st)
             | Some res \<Rightarrow> Some (buffer_srv_bind env bindless heap res desc st)))"

text \<open>
  \<^verbatim>\<open>init_default_texture_view_desc\<close>: \<open>None\<close> for \<^verbatim>\<open>false\<close>. The view type is set by every
  branch that returns \<^verbatim>\<open>true\<close>.
\<close>

definition init_default_texture_view_desc ::
  "view_desc_env \<Rightarrow> d3d12_resource \<Rightarrow> u32 \<Rightarrow> vkd3d_texture_view_desc option" where
  "init_default_texture_view_desc env res view_format =
     (let format = format_from_resource_desc env (res_desc res) view_format
      in if format = 0 then None
         else
           let desc = \<lparr>tv_image = res_vk_handle res, tv_view_type = 0,
                       tv_aspect_mask = format_aspect_mask env format, tv_format = format,
                       tv_miplevel_idx = 0, tv_miplevel_count = 1, tv_layer_idx = 0,
                       tv_layer_count = desc_layer_count env (res_desc res),
                       tv_miplevel_clamp = 0,
                       tv_components = \<lparr>comp_r = VK_COMPONENT_SWIZZLE_IDENTITY,
                                         comp_g = VK_COMPONENT_SWIZZLE_IDENTITY,
                                         comp_b = VK_COMPONENT_SWIZZLE_IDENTITY,
                                         comp_a = VK_COMPONENT_SWIZZLE_IDENTITY\<rparr>,
                       tv_allowed_swizzle = False\<rparr>
           in case Dimension (res_desc res) of
                DIMENSION_TEXTURE1D \<Rightarrow>
                  Some (desc\<lparr>tv_view_type :=
                          (if DepthOrArraySize (res_desc res) > 1
                           then VK_IMAGE_VIEW_TYPE_1D_ARRAY else VK_IMAGE_VIEW_TYPE_1D)\<rparr>)
              | DIMENSION_TEXTURE2D \<Rightarrow>
                  Some (desc\<lparr>tv_view_type :=
                          (if DepthOrArraySize (res_desc res) > 1
                           then VK_IMAGE_VIEW_TYPE_2D_ARRAY else VK_IMAGE_VIEW_TYPE_2D)\<rparr>)
              | DIMENSION_TEXTURE3D \<Rightarrow>
                  Some (desc\<lparr>tv_view_type := VK_IMAGE_VIEW_TYPE_3D, tv_layer_count := 1\<rparr>)
              | _ \<Rightarrow> None)"

text \<open>
  The switch of \<^verbatim>\<open>vkd3d_create_texture_uav\<close> over the view dimension of a description that
  is given; \<open>resource_format\<close> is \<^verbatim>\<open>resource->format\<close>. An unhandled dimension leaves the key
  as it is.
\<close>

definition texture_uav_key ::
  "view_desc_env \<Rightarrow> u64 \<Rightarrow> D3D12_UNORDERED_ACCESS_VIEW_DESC \<Rightarrow> vkd3d_texture_view_desc
     \<Rightarrow> vkd3d_texture_view_desc" where
  "texture_uav_key env resource_format desc key =
     (if uav_ViewDimension desc = D3D12_UAV_DIMENSION_TEXTURE1D
      then key\<lparr>tv_view_type := VK_IMAGE_VIEW_TYPE_1D, tv_miplevel_idx := uav_MipSlice desc,
               tv_layer_count := 1\<rparr>
      else if uav_ViewDimension desc = D3D12_UAV_DIMENSION_TEXTURE1DARRAY
      then key\<lparr>tv_view_type := VK_IMAGE_VIEW_TYPE_1D_ARRAY,
               tv_miplevel_idx := uav_MipSlice desc,
               tv_layer_idx := uav_FirstArraySlice desc,
               tv_layer_count := uav_ArraySize desc\<rparr>
      else if uav_ViewDimension desc = D3D12_UAV_DIMENSION_TEXTURE2D
      then key\<lparr>tv_view_type := VK_IMAGE_VIEW_TYPE_2D, tv_miplevel_idx := uav_MipSlice desc,
               tv_layer_count := 1,
               tv_aspect_mask := aspect_flags_from_d3d12 env resource_format
                                   (uav_PlaneSlice desc)\<rparr>
      else if uav_ViewDimension desc = D3D12_UAV_DIMENSION_TEXTURE2DARRAY
      then key\<lparr>tv_view_type := VK_IMAGE_VIEW_TYPE_2D_ARRAY,
               tv_miplevel_idx := uav_MipSlice desc,
               tv_layer_idx := uav_FirstArraySlice desc,
               tv_layer_count := uav_ArraySize desc,
               tv_aspect_mask := aspect_flags_from_d3d12 env resource_format
                                   (uav_PlaneSlice desc)\<rparr>
      else if uav_ViewDimension desc = D3D12_UAV_DIMENSION_TEXTURE3D
      then key\<lparr>tv_view_type := VK_IMAGE_VIEW_TYPE_3D, tv_miplevel_idx := uav_MipSlice desc\<rparr>
      else key)"

text \<open>
  \<^verbatim>\<open>vkd3d_create_texture_uav\<close>. \<^verbatim>\<open>resource->format\<close> is what \<^verbatim>\<open>d3d12_resource_create\<close> stored,
  the format of the description for view format 0.
\<close>

definition vkd3d_create_texture_uav ::
  "view_desc_env \<Rightarrow> vkd3d_bindless_state \<Rightarrow> d3d12_descriptor_heap \<Rightarrow> d3d12_resource option
     \<Rightarrow> D3D12_UNORDERED_ACCESS_VIEW_DESC option \<Rightarrow> desc_state \<Rightarrow> desc_state" where
  "vkd3d_create_texture_uav env bindless heap resource_opt desc_opt st =
     (case resource_opt of
        None \<Rightarrow> d3d12_descriptor_heap_write_null_descriptor_template heap
                  VK_DESCRIPTOR_TYPE_STORAGE_IMAGE st
      | Some res \<Rightarrow>
          (case init_default_texture_view_desc env res
                  (case desc_opt of None \<Rightarrow> 0 | Some desc \<Rightarrow> uav_Format desc) of
             None \<Rightarrow> st
           | Some key0 \<Rightarrow>
               if format_is_compressed env (tv_format key0) then st
               else
                 let key = (case desc_opt of
                              None \<Rightarrow> key0
                            | Some desc \<Rightarrow>
                                texture_uav_key env
                                  (format_from_resource_desc env (res_desc res) 0) desc key0)
                 in case map_create_view env res (Key_image key) of
                      None \<Rightarrow> st
                    | Some v \<Rightarrow>
                        let info_index = find_set_info_index bindless
                                           {VKD3D_BINDLESS_SET_UAV, VKD3D_BINDLESS_SET_IMAGE};
                            descriptor = (slot st)
                              \<lparr>info := Info_view (fst v),
                               metadata := (metadata (slot st))
                                 \<lparr>cookie := view_cookie (snd v),
                                  set_info_mask := push_bit (unat info_index) 1,
                                  flags := {VKD3D_DESCRIPTOR_FLAG_VIEW,
                                            VKD3D_DESCRIPTOR_FLAG_NON_NULL}\<rparr>\<rparr>
                        in st\<lparr>slot := descriptor,
                              calls := calls st @
                                [vkUpdateDescriptorSets
                                   [vkd3d_init_write_descriptor_set heap descriptor
                                      (binding_from_info_index bindless info_index)
                                      VK_DESCRIPTOR_TYPE_STORAGE_IMAGE
                                      (Write_image VK_NULL_HANDLE (vk_view_handle (snd v))
                                         VK_IMAGE_LAYOUT_GENERAL)]]\<rparr>))"

text \<open>
  A device without raw storage buffers whose format table knows format 4096 for every
  description and calls format 71 compressed; a buffer; and descriptions for the instances
  below. The typed view of the example buffer cannot be created.
\<close>

definition example_view_desc_env :: view_desc_env where
  "example_view_desc_env =
     \<lparr>supports_ray_tracing_tier_1_0 = True, use_ssbo_raw_buffer = False,
      ssbo_offset_buffer = False, typed_offset_buffer = False,
      bound_range_ssbo = (\<lambda>res desc. \<lparr>buffer = 8, buffer_offset = 0, buffer_range = 256\<rparr>),
      aligned_view = (\<lambda>res desc. None),
      format_from_resource_desc = (\<lambda>desc view_format. if view_format = 71 then 8192 else 4096),
      format_aspect_mask = (\<lambda>format. 1),
      format_is_compressed = (\<lambda>format. format = 8192),
      desc_layer_count = (\<lambda>desc. ucast (DepthOrArraySize desc)),
      aspect_flags_from_d3d12 = (\<lambda>format plane. 1),
      map_create_view = (\<lambda>res key. None)\<rparr>"

definition example_buffer_resource :: d3d12_resource where
  "example_buffer_resource =
     example_resource\<lparr>res_desc := example_buffer_desc 65536, res_cookie := 9,
                       res_vk_handle := 8\<rparr>"

definition example_srv_desc :: "u32 \<Rightarrow> D3D12_SHADER_RESOURCE_VIEW_DESC" where
  "example_srv_desc dim =
     \<lparr>srv_Format = 41, srv_ViewDimension = dim, srv_Location = 65536, srv_FirstElement = 0,
      srv_NumElements = 64, srv_StructureByteStride = 0, srv_Flags = 0\<rparr>"

definition example_uav_desc :: D3D12_UNORDERED_ACCESS_VIEW_DESC where
  "example_uav_desc =
     \<lparr>uav_Format = 71, uav_ViewDimension = D3D12_UAV_DIMENSION_TEXTURE2D, uav_MipSlice = 0,
      uav_FirstArraySlice = 0, uav_ArraySize = 1, uav_PlaneSlice = 0, uav_FirstWSlice = 0,
      uav_WSize = 0\<rparr>"

text \<open>The example slot after a constant buffer view is bound to it.\<close>

definition example_bound_state :: desc_state where
  "example_bound_state =
     \<lparr>slot = \<lparr>metadata = \<lparr>cookie = 5, set_info_mask = 4,
                            flags = {VKD3D_DESCRIPTOR_FLAG_OFFSET_RANGE,
                                     VKD3D_DESCRIPTOR_FLAG_NON_NULL},
                            current_null_type = 0\<rparr>,
              heap_offset = 4,
              info = Info_buffer \<lparr>buffer = 77, buffer_offset = 256, buffer_range = 256\<rparr>\<rparr>,
      raw_va = (\<lambda>_. 0),
      calls = [vkUpdateDescriptorSets [example_cbv_write]]\<rparr>"

section \<open>Theorems\<close>

subsection \<open>The tile loop of a reserved buffer\<close>

lemma init_sparse_tiles_buffer:
  "init_sparse_tiles True width image_tile i n tiles =
     tiles @ map (\<lambda>k. buffer_tile width (of_nat k)) [unat i..<unat n]"
proof (induction True width image_tile i n tiles rule: init_sparse_tiles.induct)
  case (1 width image_tile i n tiles)
  show ?case
  proof (cases "i < n")
    case True
    then have lt: "unat i < unat n"
      by (simp add: word_less_nat_alt)
    have suc: "unat (i + 1) = Suc (unat i)"
      using True by (simp add: word_less_unat_Suc)
    have "[unat i..<unat n] = unat i # [Suc (unat i)..<unat n]"
      using lt by (simp add: upt_conv_Cons)
    with "1.hyps" [OF True] suc True show ?thesis
      by (subst init_sparse_tiles.simps) simp
  next
    case False
    then have "\<not> unat i < unat n"
      by (simp add: word_less_nat_alt)
    with False show ?thesis
      by (subst init_sparse_tiles.simps) simp
  qed
qed

lemma unat_tile_size64: "unat (VKD3D_TILE_SIZE :: u64) = 65536"
  by (simp add: VKD3D_TILE_SIZE_def)

lemma buffer_tile_count:
  assumes "unat w \<le> 2 ^ 32"
  shows "unat (ucast (align w VKD3D_TILE_SIZE div VKD3D_TILE_SIZE) :: u32)
           = (unat w + 65535) div 65536"
proof -
  let ?q = "(unat w + 65535) div 65536"
  have q: "?q \<le> 65536" using assms by simp
  have a: "unat (w + 65535) = unat w + 65535"
    using assms by (simp add: unat_word_ariths)
  have d: "unat ((w + 65535) div 65536) = ?q"
    using a by (simp add: unat_div)
  have m: "unat (((w + 65535) div 65536) * 65536) = ?q * 65536"
    using d q by (simp add: unat_word_ariths)
  have "unat (align w VKD3D_TILE_SIZE div VKD3D_TILE_SIZE) = ?q"
    using m by (simp add: align_def VKD3D_TILE_SIZE_def unat_div)
  moreover have "?q < 2 ^ 32" using q by simp
  ultimately show ?thesis
    by (simp add: unsigned_ucast_eq take_bit_eq_mod)
qed

lemma buffer_tile_region:
  assumes w: "unat w \<le> 2 ^ 32" and k: "k < (unat w + 65535) div 65536"
  shows "\<exists>off len. buffer_tile w (of_nat k) =
             \<lparr>region = BufferRegion off len, vk_memory = VK_NULL_HANDLE, vk_offset = 0\<rparr>
           \<and> unat off = 65536 * k \<and> unat len = min 65536 (unat w - 65536 * k)"
proof -
  define off :: u64 where "off = ucast ((VKD3D_TILE_SIZE :: u32) * of_nat k)"
  have k16: "k < 65536" using w k by simp
  have kw: "65536 * k < unat w" using k by simp
  have i: "unat (of_nat k :: u32) = k"
    using k16 by (simp add: unat_of_nat)
  have p: "unat ((65536 :: u32) * of_nat k) = 65536 * k"
    using i k16 by (simp add: unat_word_ariths)
  have uo: "unat off = 65536 * k"
    using p k16 by (simp add: off_def VKD3D_TILE_SIZE_def unsigned_ucast_eq take_bit_eq_mod)
  have le: "off \<le> w"
    using kw uo by (simp add: word_le_nat_alt)
  have sub: "unat (w - off) = unat w - 65536 * k"
    using le uo by (simp add: unat_sub)
  have m: "unat (min (65536 :: u64) (w - off)) = min 65536 (unat w - 65536 * k)"
    using sub by (simp add: min_def word_le_nat_alt)
  have "buffer_tile w (of_nat k) =
          \<lparr>region = BufferRegion off (min 65536 (w - off)), vk_memory = VK_NULL_HANDLE,
           vk_offset = 0\<rparr>"
    by (simp add: buffer_tile_def off_def VKD3D_TILE_SIZE_def Let_def)
  with uo m show ?thesis
    by blast
qed


lemma allocation_query_desc_Alignment:
  "Alignment (allocation_query_desc device desc0) = Alignment desc0"
  by (simp add: allocation_query_desc_def)

text \<open>
  C6. For a texture description that validates and whose throwaway image is created, with
  \<open>req\<close> the native memory requirements and \<open>target\<close> the description's alignment (or the
  default placement alignment when that is zero): when \<open>req_alignment req > target\<close> the
  query reports size \<open>req_size req + (req_alignment req - target)\<close> and alignment
  \<open>target\<close>; otherwise it reports \<open>req_size req\<close> and \<open>req_alignment req\<close> unchanged. The
  sum is that of \<^verbatim>\<open>UINT64\<close>; read as numbers, the reported size is the native size plus
  the difference of the alignments whenever that sum fits 64 bits.
\<close>

theorem get_image_allocation_info_padding:
  assumes "Dimension desc0 \<noteq> DIMENSION_BUFFER"
    and "validate_desc device desc0 = S_OK"
    and "create_image device (Some default_heap_properties) 0 (allocation_query_desc device desc0)
           = (S_OK, vk_image)"
    and "req = image_memory_requirements device vk_image"
    and "target = target_alignment_of desc0"
  shows "vkd3d_get_image_allocation_info device desc0 old_info =
           Some (S_OK,
             if req_alignment req > target
             then \<lparr>SizeInBytes = req_size req + (req_alignment req - target),
                   InfoAlignment = target\<rparr>
             else \<lparr>SizeInBytes = req_size req, InfoAlignment = req_alignment req\<rparr>)
         \<and> (req_alignment req > target
              \<and> unat (req_size req) + (unat (req_alignment req) - unat target) < 2 ^ 64
            \<longrightarrow> (\<exists>info. vkd3d_get_image_allocation_info device desc0 old_info = Some (S_OK, info)
                   \<and> unat (SizeInBytes info)
                       = unat (req_size req) + (unat (req_alignment req) - unat target)
                   \<and> InfoAlignment info = target))"
proof (intro conjI impI)
  show eq: "vkd3d_get_image_allocation_info device desc0 old_info =
           Some (S_OK,
             if req_alignment req > target
             then \<lparr>SizeInBytes = req_size req + (req_alignment req - target),
                   InfoAlignment = target\<rparr>
             else \<lparr>SizeInBytes = req_size req, InfoAlignment = req_alignment req\<rparr>)"
    using assms
    by (simp add: vkd3d_get_image_allocation_info_def allocation_query_desc_def
        target_alignment_of_def FAILED_def Let_def)
  assume h: "req_alignment req > target
           \<and> unat (req_size req) + (unat (req_alignment req) - unat target) < 2 ^ 64"
  then have le: "target \<le> req_alignment req"
    by (simp add: order.strict_implies_order)
  have sub: "unat (req_alignment req - target) = unat (req_alignment req) - unat target"
    using le by (simp add: unat_sub)
  have "unat (req_size req + (req_alignment req - target))
          = unat (req_size req) + unat (req_alignment req - target)"
    using h sub by (simp add: unat_add_lem [THEN iffD1])
  with h sub eq show "\<exists>info. vkd3d_get_image_allocation_info device desc0 old_info = Some (S_OK, info)
              \<and> unat (SizeInBytes info)
                  = unat (req_size req) + (unat (req_alignment req) - unat target)
              \<and> InfoAlignment info = target"
    by simp
qed

theorem get_image_allocation_info_padding_witness:
  "Dimension example_texture_desc \<noteq> DIMENSION_BUFFER
   \<and> validate_desc example_device example_texture_desc = S_OK
   \<and> create_image example_device (Some default_heap_properties) 0
        (allocation_query_desc example_device example_texture_desc) = (S_OK, 7)
   \<and> vkd3d_get_image_allocation_info example_device example_texture_desc
        \<lparr>SizeInBytes = 0, InfoAlignment = 0\<rparr>
       = Some (S_OK, \<lparr>SizeInBytes = 1114112, InfoAlignment = 65536\<rparr>)"
  using get_image_allocation_info_padding [of example_texture_desc example_device 7
      "image_memory_requirements example_device 7" "target_alignment_of example_texture_desc"
      "\<lparr>SizeInBytes = 0, InfoAlignment = 0\<rparr>"]
  by (simp add: example_device_def example_texture_desc_def allocation_query_desc_def
      target_alignment_of_def D3D12_DEFAULT_RESOURCE_PLACEMENT_ALIGNMENT_def)

text \<open>
  Up to a width of \<open>2 ^ 32\<close> bytes the tile table of a reserved buffer is the specified one:
  when both host allocations succeed, \<^verbatim>\<open>d3d12_resource_init_sparse_info\<close> returns \<^verbatim>\<open>S_OK\<close> with
  exactly \<open>ceil (W / 65536)\<close> tiles; tile \<open>i\<close> is the byte range at offset \<open>65536 * i\<close> of length
  \<open>min 65536 (W - 65536 * i)\<close>, with a null memory handle and memory offset zero.
\<close>

theorem reserved_buffer_tiles:
  assumes "Dimension desc = DIMENSION_BUFFER"
    and "VKD3D_RESOURCE_RESERVED \<in> rflags"
    and "malloc_tilings_ok env" and "malloc_tiles_ok env"
    and w: "unat (Width desc) \<le> 2 ^ 32"
  shows "\<exists>sparse. d3d12_resource_init_sparse_info env rflags desc = (S_OK, sparse)
           \<and> unat (tile_count sparse) = (unat (Width desc) + 65535) div 65536
           \<and> length (sparse_tiles sparse) = (unat (Width desc) + 65535) div 65536
           \<and> (\<forall>i < length (sparse_tiles sparse). \<exists>off len.
                 sparse_tiles sparse ! i =
                   \<lparr>region = BufferRegion off len, vk_memory = VK_NULL_HANDLE, vk_offset = 0\<rparr>
                 \<and> unat off = 65536 * i
                 \<and> unat len = min 65536 (unat (Width desc) - 65536 * i))"
proof -
  let ?n = "(unat (Width desc) + 65535) div 65536"
  let ?tc = "ucast (align (Width desc) VKD3D_TILE_SIZE div VKD3D_TILE_SIZE) :: u32"
  let ?tiles = "map (\<lambda>k. buffer_tile (Width desc) (of_nat k)) [0..<?n]"
  have tc: "unat ?tc = ?n"
    using w by (rule buffer_tile_count)
  have tiles: "init_sparse_tiles True (Width desc) (env_image_tile env) 0 ?tc [] = ?tiles"
    using tc by (simp add: init_sparse_tiles_buffer)
  have run: "d3d12_resource_init_sparse_info env rflags desc =
               (S_OK, zero_sparse_info
                  \<lparr>tiling_count := sub_resource_count_per_plane env, tile_count := ?tc,
                   packed_mips := \<lparr>NumStandardMips = 0, NumPackedMips = 0,
                      NumTilesForPackedMips = 0, PackedStartTileIndex = 0\<rparr>,
                   sparse_tile_shape := \<lparr>WidthInTexels = VKD3D_TILE_SIZE, HeightInTexels = 1,
                      DepthInTexels = 1\<rparr>,
                   sparse_tilings := (fresh_tilings env)
                      [0 := \<lparr>WidthInTiles = ?tc, HeightInTiles = 1, DepthInTiles = 1,
                              StartTileIndexInOverallResource = 0\<rparr>],
                   sparse_tiles := ?tiles\<rparr>)"
    using assms(1-4) tiles
    by (simp add: d3d12_resource_init_sparse_info_def d3d12_resource_get_tiling_def Let_def
        FAILED_def)
  have each: "\<forall>i < ?n. \<exists>off len.
                 ?tiles ! i =
                   \<lparr>region = BufferRegion off len, vk_memory = VK_NULL_HANDLE, vk_offset = 0\<rparr>
                 \<and> unat off = 65536 * i
                 \<and> unat len = min 65536 (unat (Width desc) - 65536 * i)"
  proof (intro allI impI)
    fix i assume i: "i < ?n"
    then have "?tiles ! i = buffer_tile (Width desc) (of_nat i)"
      by simp
    with buffer_tile_region [OF w i] show "\<exists>off len.
                 ?tiles ! i =
                   \<lparr>region = BufferRegion off len, vk_memory = VK_NULL_HANDLE, vk_offset = 0\<rparr>
                 \<and> unat off = 65536 * i
                 \<and> unat len = min 65536 (unat (Width desc) - 65536 * i)"
      by simp
  qed
  show ?thesis
    using run tc each by simp
qed


theorem reserved_buffer_tiles_witness:
  "Dimension (example_buffer_desc 150000) = DIMENSION_BUFFER
   \<and> VKD3D_RESOURCE_RESERVED \<in> {VKD3D_RESOURCE_RESERVED}
   \<and> malloc_tilings_ok example_sparse_env \<and> malloc_tiles_ok example_sparse_env
   \<and> unat (Width (example_buffer_desc 150000)) \<le> 2 ^ 32
   \<and> fst (d3d12_resource_init_sparse_info example_sparse_env {VKD3D_RESOURCE_RESERVED}
            (example_buffer_desc 150000)) = S_OK
   \<and> sparse_tiles (snd (d3d12_resource_init_sparse_info example_sparse_env
            {VKD3D_RESOURCE_RESERVED} (example_buffer_desc 150000)))
       = [\<lparr>region = BufferRegion 0 65536, vk_memory = 0, vk_offset = 0\<rparr>,
          \<lparr>region = BufferRegion 65536 65536, vk_memory = 0, vk_offset = 0\<rparr>,
          \<lparr>region = BufferRegion 131072 18928, vk_memory = 0, vk_offset = 0\<rparr>]"
  using reserved_buffer_tiles [of "example_buffer_desc 150000" "{VKD3D_RESOURCE_RESERVED}"
      example_sparse_env]
  by (simp add: example_buffer_desc_def example_sparse_env_def
      d3d12_resource_init_sparse_info_def d3d12_resource_get_tiling_def Let_def FAILED_def
      init_sparse_tiles_buffer align_def VKD3D_TILE_SIZE_def buffer_tile_def VK_NULL_HANDLE_def
      upt_conv_Cons zero_sparse_info_def)


text \<open>
  C8. One byte past \<open>2 ^ 32\<close> the table is wrong. A reserved buffer of \<open>2 ^ 32 + 1\<close> bytes gets
  the specified 65537 tiles, but the offset of a tile is the product \<^verbatim>\<open>VKD3D_TILE_SIZE * i\<close>
  taken in 32 bits: for the last tile, \<open>i = 65536\<close>, it wraps to 0. The last tile is the range
  of 65536 bytes at offset 0, a second copy of tile 0, where the specification has the one
  byte at offset \<open>2 ^ 32\<close>.
\<close>

theorem reserved_buffer_tile_offset_wraps:
  "fst (d3d12_resource_init_sparse_info example_sparse_env {VKD3D_RESOURCE_RESERVED}
          (example_buffer_desc 4294967297)) = S_OK
   \<and> tile_count (snd (d3d12_resource_init_sparse_info example_sparse_env
          {VKD3D_RESOURCE_RESERVED} (example_buffer_desc 4294967297))) = 65537
   \<and> length (sparse_tiles (snd (d3d12_resource_init_sparse_info example_sparse_env
          {VKD3D_RESOURCE_RESERVED} (example_buffer_desc 4294967297)))) = 65537
   \<and> sparse_tiles (snd (d3d12_resource_init_sparse_info example_sparse_env
          {VKD3D_RESOURCE_RESERVED} (example_buffer_desc 4294967297))) ! 65536
       = \<lparr>region = BufferRegion 0 65536, vk_memory = VK_NULL_HANDLE, vk_offset = 0\<rparr>
   \<and> sparse_tiles (snd (d3d12_resource_init_sparse_info example_sparse_env
          {VKD3D_RESOURCE_RESERVED} (example_buffer_desc 4294967297))) ! 0
       = \<lparr>region = BufferRegion 0 65536, vk_memory = VK_NULL_HANDLE, vk_offset = 0\<rparr>
   \<and> (unat (Width (example_buffer_desc 4294967297)) + 65535) div 65536 = 65537
   \<and> unat (Width (example_buffer_desc 4294967297)) - 65536 * 65536 = 1"
  by (simp add: example_buffer_desc_def example_sparse_env_def
      d3d12_resource_init_sparse_info_def d3d12_resource_get_tiling_def Let_def FAILED_def
      init_sparse_tiles_buffer align_def VKD3D_TILE_SIZE_def buffer_tile_def
      zero_sparse_info_def)

text \<open>
  Far beyond, the count itself is cut: \<^verbatim>\<open>tile_count\<close> is an \<^verbatim>\<open>unsigned int\<close>, so a buffer of
  \<open>2 ^ 48\<close> bytes, which needs \<open>2 ^ 32\<close> tiles, gets a tile count of zero and an empty table.
\<close>

theorem reserved_buffer_tiles_counterexample:
  "tile_count (snd (d3d12_resource_init_sparse_info example_sparse_env
       {VKD3D_RESOURCE_RESERVED} (example_buffer_desc (2 ^ 48)))) = 0
   \<and> sparse_tiles (snd (d3d12_resource_init_sparse_info example_sparse_env
       {VKD3D_RESOURCE_RESERVED} (example_buffer_desc (2 ^ 48)))) = []
   \<and> (unat (Width (example_buffer_desc (2 ^ 48))) + 65535) div 65536 = 4294967296"
  by (simp add: example_buffer_desc_def example_sparse_env_def
      d3d12_resource_init_sparse_info_def d3d12_resource_get_tiling_def Let_def FAILED_def
      init_sparse_tiles_buffer align_def VKD3D_TILE_SIZE_def zero_sparse_info_def)

subsection \<open>Null descriptor writes\<close>

text \<open>
  C3 (as amended). Let \<open>t\<close> be the effective placeholder subtype: the caller's on a heap whose
  null template has mutable descriptors, 0 otherwise. Writing a null descriptor to a slot
  that is already null (\<^verbatim>\<open>NON_NULL\<close> clear) and whose recorded null type is \<open>t\<close> changes nothing
  and makes no native call. In every other case it makes exactly one
  \<^verbatim>\<open>vkUpdateDescriptorSets\<close> call, whose writes are the heap's template writes in their
  order, each with the slot's offset as array element and with a mutable descriptor type
  replaced by \<open>t\<close>; it resets the metadata to cookie 0, no flags, the template's set mask
  and current null type \<open>t\<close>, clears the cached info, keeps the slot's offset, and clears the
  slot's entry of the raw-VA side table when the heap has that table.
\<close>

theorem null_descriptor_write:
  "(VKD3D_DESCRIPTOR_FLAG_NON_NULL \<notin> flags (metadata (slot st))
      \<and> current_null_type (metadata (slot st)) = effective_null_type heap ty
    \<longrightarrow> d3d12_descriptor_heap_write_null_descriptor_template heap ty st = st)
   \<and> (\<not> (VKD3D_DESCRIPTOR_FLAG_NON_NULL \<notin> flags (metadata (slot st))
          \<and> current_null_type (metadata (slot st)) = effective_null_type heap ty)
      \<longrightarrow> calls (d3d12_descriptor_heap_write_null_descriptor_template heap ty st)
            = calls st @
              [vkUpdateDescriptorSets
                 (map (\<lambda>w. w\<lparr>descriptorType :=
                                 (if descriptorType w = VK_DESCRIPTOR_TYPE_MUTABLE_VALVE
                                  then effective_null_type heap ty else descriptorType w),
                               dstArrayElement := heap_offset (slot st)\<rparr>)
                      (writes (null_template heap)))]
          \<and> metadata (slot (d3d12_descriptor_heap_write_null_descriptor_template heap ty st))
              = \<lparr>cookie = 0,
                 set_info_mask = template_set_info_mask (null_template heap),
                 flags = {},
                 current_null_type = effective_null_type heap ty\<rparr>
          \<and> info (slot (d3d12_descriptor_heap_write_null_descriptor_template heap ty st))
              = Info_zero
          \<and> heap_offset (slot (d3d12_descriptor_heap_write_null_descriptor_template heap ty st))
              = heap_offset (slot st)
          \<and> raw_va (d3d12_descriptor_heap_write_null_descriptor_template heap ty st)
              = (if has_raw_va_aux_buffer heap then (raw_va st)(heap_offset (slot st) := 0)
                 else raw_va st))"
  by (auto simp: d3d12_descriptor_heap_write_null_descriptor_template_def
      effective_null_type_def Let_def)

theorem null_descriptor_write_witness:
  "d3d12_descriptor_heap_write_null_descriptor_template (example_heap True)
      VK_DESCRIPTOR_TYPE_SAMPLER example_fresh_state = example_fresh_state
   \<and> calls (d3d12_descriptor_heap_write_null_descriptor_template (example_heap True)
        VK_DESCRIPTOR_TYPE_SAMPLED_IMAGE example_fresh_state)
      = [vkUpdateDescriptorSets
          [\<lparr>dstSet = 100, dstBinding = 0, dstArrayElement = 4, descriptorCount = 1,
            descriptorType = VK_DESCRIPTOR_TYPE_SAMPLED_IMAGE,
            write_info = Write_null_template\<rparr>,
           \<lparr>dstSet = 101, dstBinding = 0, dstArrayElement = 4, descriptorCount = 1,
            descriptorType = VK_DESCRIPTOR_TYPE_STORAGE_BUFFER,
            write_info = Write_null_template\<rparr>]]
   \<and> metadata (slot (d3d12_descriptor_heap_write_null_descriptor_template (example_heap True)
        VK_DESCRIPTOR_TYPE_SAMPLED_IMAGE example_fresh_state))
      = \<lparr>cookie = 0, set_info_mask = 3, flags = {},
         current_null_type = VK_DESCRIPTOR_TYPE_SAMPLED_IMAGE\<rparr>
   \<and> raw_va (d3d12_descriptor_heap_write_null_descriptor_template (example_heap True)
        VK_DESCRIPTOR_TYPE_SAMPLED_IMAGE example_fresh_state) 4 = 0"
  using null_descriptor_write [of example_fresh_state "example_heap True"
      VK_DESCRIPTOR_TYPE_SAMPLER]
    null_descriptor_write [of example_fresh_state "example_heap True"
      VK_DESCRIPTOR_TYPE_SAMPLED_IMAGE]
  by (simp add: d3d12_descriptor_heap_write_null_descriptor_template_def
      example_heap_def example_template_def example_fresh_state_def Let_def
      VK_DESCRIPTOR_TYPE_SAMPLER_def VK_DESCRIPTOR_TYPE_SAMPLED_IMAGE_def
      VK_DESCRIPTOR_TYPE_MUTABLE_VALVE_def VK_DESCRIPTOR_TYPE_STORAGE_BUFFER_def)

text \<open>
  C3 as stated fails on a heap without mutable descriptors: a fresh slot records null type 0,
  a null write asks for the different subtype \<^verbatim>\<open>SAMPLED_IMAGE\<close>, and the code makes no native
  update and keeps the recorded type 0.
\<close>

theorem null_descriptor_write_counterexample:
  "VKD3D_DESCRIPTOR_FLAG_NON_NULL \<notin> flags (metadata (slot example_fresh_state))
   \<and> current_null_type (metadata (slot example_fresh_state)) \<noteq> VK_DESCRIPTOR_TYPE_SAMPLED_IMAGE
   \<and> calls (d3d12_descriptor_heap_write_null_descriptor_template (example_heap False)
        VK_DESCRIPTOR_TYPE_SAMPLED_IMAGE example_fresh_state) = []
   \<and> current_null_type (metadata (slot
        (d3d12_descriptor_heap_write_null_descriptor_template (example_heap False)
           VK_DESCRIPTOR_TYPE_SAMPLED_IMAGE example_fresh_state))) = 0"
  by (simp add: d3d12_descriptor_heap_write_null_descriptor_template_def
      example_heap_def example_template_def example_fresh_state_def Let_def
      VK_DESCRIPTOR_TYPE_SAMPLED_IMAGE_def)

subsection \<open>Rebinding a constant buffer view\<close>

text \<open>
  C4 (as amended). After \<^verbatim>\<open>d3d12_desc_create_cbv\<close> has bound a slot to a non-null location of
  aligned size, a second call with the same description on the same slot makes exactly one
  more native call, with the same single write as the first, and leaves the slot and the
  side table as they were: the function has no cookie test.
\<close>

theorem create_cbv_rebind:
  assumes "d3d12_desc_create_cbv bindless va_map_deref heap (Some desc) st = Some st1"
    and "BufferLocation desc \<noteq> 0"
    and "SizeInBytes_cbv desc AND 255 = 0"
  shows "\<exists>w. calls st1 = calls st @ [vkUpdateDescriptorSets [w]]
           \<and> d3d12_desc_create_cbv bindless va_map_deref heap (Some desc) st1
               = Some (st1\<lparr>calls := calls st1 @ [vkUpdateDescriptorSets [w]]\<rparr>)"
  using assms
  by (auto simp: d3d12_desc_create_cbv_def Let_def
      D3D12_CONSTANT_BUFFER_DATA_PLACEMENT_ALIGNMENT_def vkd3d_init_write_descriptor_set_def
      split: option.splits)

theorem create_cbv_rebind_witness:
  "d3d12_desc_create_cbv example_bindless example_va_map (example_heap True)
       (Some example_cbv_desc) example_fresh_state
     = Some (example_fresh_state
         \<lparr>slot := \<lparr>metadata = \<lparr>cookie = 5, set_info_mask = 4,
                     flags = {VKD3D_DESCRIPTOR_FLAG_OFFSET_RANGE, VKD3D_DESCRIPTOR_FLAG_NON_NULL},
                     current_null_type = 0\<rparr>,
                   heap_offset = 4,
                   info = Info_buffer \<lparr>buffer = 77, buffer_offset = 256, buffer_range = 256\<rparr>\<rparr>,
          calls := [vkUpdateDescriptorSets [example_cbv_write]]\<rparr>)
   \<and> BufferLocation example_cbv_desc \<noteq> 0
   \<and> SizeInBytes_cbv example_cbv_desc AND 255 = 0"
  using create_cbv_rebind [of example_bindless example_va_map "example_heap True"
      example_cbv_desc example_fresh_state]
  by (simp add: d3d12_desc_create_cbv_def Let_def example_bindless_def example_va_map_def
      example_heap_def example_cbv_desc_def example_fresh_state_def example_cbv_write_def
      D3D12_CONSTANT_BUFFER_DATA_PLACEMENT_ALIGNMENT_def vkd3d_init_write_descriptor_set_def)

text \<open>
  C4 as stated fails: binding the example view twice to a fresh slot makes two native calls,
  the second equal to the first.
\<close>

theorem create_cbv_rebind_counterexample:
  "map_option calls (d3d12_desc_create_cbv example_bindless example_va_map (example_heap True)
       (Some example_cbv_desc) example_fresh_state)
     = Some [vkUpdateDescriptorSets [example_cbv_write]]
   \<and> map_option calls
       (Option.bind (d3d12_desc_create_cbv example_bindless example_va_map (example_heap True)
           (Some example_cbv_desc) example_fresh_state)
         (d3d12_desc_create_cbv example_bindless example_va_map (example_heap True)
           (Some example_cbv_desc)))
     = Some [vkUpdateDescriptorSets [example_cbv_write], vkUpdateDescriptorSets [example_cbv_write]]"
  by (simp add: d3d12_desc_create_cbv_def Let_def example_bindless_def example_va_map_def
      example_heap_def example_cbv_desc_def example_fresh_state_def example_cbv_write_def
      D3D12_CONSTANT_BUFFER_DATA_PLACEMENT_ALIGNMENT_def vkd3d_init_write_descriptor_set_def)

subsection \<open>Reference counts of a resource\<close>

text \<open>
  C2. What the four counting functions do, case by case. A public \<^verbatim>\<open>AddRef\<close> from 0 takes
  one reference on the device and one internal reference. A public \<^verbatim>\<open>Release\<close> that reaches 0
  drops one internal reference and makes no call on the device: \<^verbatim>\<open>d3d12_device_release\<close> is
  called by \<^verbatim>\<open>d3d12_resource_destroy\<close> alone, which runs when a decrement takes the internal
  count to 0. The specification has the \<^verbatim>\<open>Release\<close> that reaches 0 return the device
  reference; the code does not, and a resource that is released to 0, revived and released
  again keeps one device reference for ever.
\<close>

theorem resource_refcounting:
  "(refcount (resource st) = 0 \<longrightarrow>
      d3d12_resource_AddRef st =
        (1, st\<lparr>resource := (resource st)
                   \<lparr>refcount := 1,
                    internal_refcount := internal_refcount (resource st) + 1\<rparr>,
                events := events st @ [Device_add_ref]\<rparr>))
   \<and> (refcount (resource st) \<noteq> 0 \<longrightarrow>
      d3d12_resource_AddRef st =
        (refcount (resource st) + 1,
         st\<lparr>resource := (resource st)\<lparr>refcount := refcount (resource st) + 1\<rparr>\<rparr>))
   \<and> (refcount (resource st) \<noteq> 1 \<longrightarrow>
      d3d12_resource_Release bda st =
        (refcount (resource st) - 1,
         st\<lparr>resource := (resource st)\<lparr>refcount := refcount (resource st) - 1\<rparr>\<rparr>))
   \<and> (refcount (resource st) = 1 \<and> internal_refcount (resource st) \<noteq> 1 \<longrightarrow>
      d3d12_resource_Release bda st =
        (0, st\<lparr>resource := (resource st)
                   \<lparr>refcount := 0,
                    internal_refcount := internal_refcount (resource st) - 1\<rparr>\<rparr>))
   \<and> (refcount (resource st) = 1 \<and> internal_refcount (resource st) = 1 \<longrightarrow>
      d3d12_resource_Release bda st =
        (0, st\<lparr>resource := (resource st)\<lparr>refcount := 0, internal_refcount := 0\<rparr>,
                events := events st
                  @ d3d12_resource_destroy bda
                      ((resource st)\<lparr>refcount := 0, internal_refcount := 0\<rparr>)\<rparr>))
   \<and> (internal_refcount (resource st) \<noteq> 1 \<longrightarrow>
      d3d12_resource_decref bda st =
        (internal_refcount (resource st) - 1,
         st\<lparr>resource := (resource st)
                \<lparr>internal_refcount := internal_refcount (resource st) - 1\<rparr>\<rparr>))
   \<and> (internal_refcount (resource st) = 1 \<longrightarrow>
      d3d12_resource_decref bda st =
        (0, st\<lparr>resource := (resource st)\<lparr>internal_refcount := 0\<rparr>,
                events := events st
                  @ d3d12_resource_destroy bda ((resource st)\<lparr>internal_refcount := 0\<rparr>)\<rparr>))"
proof (intro conjI impI)
  show "refcount (resource st) = 0 \<Longrightarrow>
      d3d12_resource_AddRef st =
        (1, st\<lparr>resource := (resource st)
                   \<lparr>refcount := 1,
                    internal_refcount := internal_refcount (resource st) + 1\<rparr>,
                events := events st @ [Device_add_ref]\<rparr>)"
    by (simp add: d3d12_resource_AddRef_def d3d12_resource_incref_def Let_def)
  show "refcount (resource st) \<noteq> 0 \<Longrightarrow>
      d3d12_resource_AddRef st =
        (refcount (resource st) + 1,
         st\<lparr>resource := (resource st)\<lparr>refcount := refcount (resource st) + 1\<rparr>\<rparr>)"
    by (simp add: d3d12_resource_AddRef_def Let_def)
  show "refcount (resource st) \<noteq> 1 \<Longrightarrow>
      d3d12_resource_Release bda st =
        (refcount (resource st) - 1,
         st\<lparr>resource := (resource st)\<lparr>refcount := refcount (resource st) - 1\<rparr>\<rparr>)"
    by (simp add: d3d12_resource_Release_def Let_def)
  show "refcount (resource st) = 1 \<and> internal_refcount (resource st) \<noteq> 1 \<Longrightarrow>
      d3d12_resource_Release bda st =
        (0, st\<lparr>resource := (resource st)
                   \<lparr>refcount := 0,
                    internal_refcount := internal_refcount (resource st) - 1\<rparr>\<rparr>)"
    by (simp add: d3d12_resource_Release_def d3d12_resource_decref_def Let_def)
  show "refcount (resource st) = 1 \<and> internal_refcount (resource st) = 1 \<Longrightarrow>
      d3d12_resource_Release bda st =
        (0, st\<lparr>resource := (resource st)\<lparr>refcount := 0, internal_refcount := 0\<rparr>,
                events := events st
                  @ d3d12_resource_destroy bda
                      ((resource st)\<lparr>refcount := 0, internal_refcount := 0\<rparr>)\<rparr>)"
    by (simp add: d3d12_resource_Release_def d3d12_resource_decref_def Let_def)
  show "internal_refcount (resource st) \<noteq> 1 \<Longrightarrow>
      d3d12_resource_decref bda st =
        (internal_refcount (resource st) - 1,
         st\<lparr>resource := (resource st)
                \<lparr>internal_refcount := internal_refcount (resource st) - 1\<rparr>\<rparr>)"
    by (simp add: d3d12_resource_decref_def Let_def)
  show "internal_refcount (resource st) = 1 \<Longrightarrow>
      d3d12_resource_decref bda st =
        (0, st\<lparr>resource := (resource st)\<lparr>internal_refcount := 0\<rparr>,
                events := events st
                  @ d3d12_resource_destroy bda ((resource st)\<lparr>internal_refcount := 0\<rparr>)\<rparr>)"
    by (simp add: d3d12_resource_decref_def Let_def)
qed

text \<open>
  The run that loses a device reference. The example resource holds the device reference of
  its creation and a second internal reference. \<^verbatim>\<open>Release\<close> takes the public count to 0 and
  calls nothing; \<^verbatim>\<open>AddRef\<close> takes a second device reference; \<^verbatim>\<open>Release\<close> again calls
  nothing; the last \<^verbatim>\<open>d3d12_resource_decref\<close> destroys the resource and releases the device
  once. Two references were taken and one was returned.
\<close>

theorem resource_refcounting_witness:
  "refcount (resource example_resource_state) = 1
   \<and> internal_refcount (resource example_resource_state) \<noteq> 1
   \<and> d3d12_resource_Release False example_resource_state = (0, example_released_state)
   \<and> events example_released_state = events example_resource_state
   \<and> refcount (resource example_released_state) = 0
   \<and> d3d12_resource_AddRef example_released_state = (1, example_revived_state)
   \<and> events example_revived_state = events example_resource_state @ [Device_add_ref]
   \<and> refcount (resource example_revived_state) = 1
   \<and> internal_refcount (resource example_revived_state) \<noteq> 1
   \<and> events (snd (d3d12_resource_Release False example_revived_state))
       = events example_revived_state
   \<and> internal_refcount (resource (snd (d3d12_resource_Release False example_revived_state))) = 1
   \<and> events (snd (d3d12_resource_decref False
                    (snd (d3d12_resource_Release False example_revived_state))))
       = [Device_add_ref, Debug_register_cookie 1, Device_add_ref, View_map_destroy,
          Debug_unregister_cookie 1, VkDestroyImage 7, Free_memory 9, Private_store_destroy,
          Device_release, Free_resource]
   \<and> length (filter (\<lambda>e. e = Device_add_ref)
        (events (snd (d3d12_resource_decref False
                        (snd (d3d12_resource_Release False example_revived_state)))))) = 2
   \<and> length (filter (\<lambda>e. e = Device_release)
        (events (snd (d3d12_resource_decref False
                        (snd (d3d12_resource_Release False example_revived_state)))))) = 1"
  using resource_refcounting [of example_resource_state False]
    resource_refcounting [of example_released_state False]
    resource_refcounting [of example_revived_state False]
    resource_refcounting [of "snd (d3d12_resource_Release False example_revived_state)" False]
  by (simp add: example_resource_state_def example_resource_def example_released_state_def
      example_revived_state_def d3d12_resource_destroy_def d3d12_resource_is_texture_def
      example_texture_desc_def)

text \<open>
  C2 as stated fails: with one internal reference still held, the public \<^verbatim>\<open>Release\<close> that
  reaches 0 makes no call at all, so the device reference is not released by it.
\<close>

theorem resource_refcounting_counterexample:
  "refcount (resource example_resource_state) = 1
   \<and> fst (d3d12_resource_Release False example_resource_state) = 0
   \<and> events (snd (d3d12_resource_Release False example_resource_state))
       = events example_resource_state
   \<and> Device_release \<notin> set (events (snd (d3d12_resource_Release False example_resource_state)))
   \<and> internal_refcount (resource (snd (d3d12_resource_Release False example_resource_state))) = 1"
  by (simp add: d3d12_resource_Release_def d3d12_resource_decref_def Let_def
      example_resource_state_def example_resource_def)

subsection \<open>Placing a resource in a heap\<close>















subsection \<open>Sampler keys and the border colour\<close>




subsection \<open>Two calls for one view\<close>































subsection \<open>Cookies\<close>









subsection \<open>Descriptor writes that give up\<close>

text \<open>
  C5. What the descriptor functions do when they give up. A constant buffer view with no
  description or a size that is not a multiple of 256, a buffer view with no description or
  an unexpected view dimension, and a texture view whose format is unknown, whose resource
  dimension is not handled, whose format is compressed or whose view cannot be created,
  return with the slot and the native sets as they were: the slot is not made null. A
  buffer view whose typed view cannot be created returns without a native write too, but
  after the metadata of the slot was overwritten: the slot then shows no set and no flags
  (or, on a device with raw storage buffers, the storage buffer of the new resource) while
  the native sets still hold what was bound before.
\<close>

theorem descriptor_create_failure:
  "d3d12_desc_create_cbv bindless va_map dh None st = Some st
   \<and> (SizeInBytes_cbv cbv AND (D3D12_CONSTANT_BUFFER_DATA_PLACEMENT_ALIGNMENT - 1) \<noteq> 0
        \<longrightarrow> d3d12_desc_create_cbv bindless va_map dh (Some cbv) st = Some st)
   \<and> vkd3d_create_buffer_srv venv bindless dh ro None st = Some st
   \<and> (srv_ViewDimension srv \<noteq> D3D12_SRV_DIMENSION_RAYTRACING_ACCELERATION_STRUCTURE
        \<and> srv_ViewDimension srv \<noteq> D3D12_SRV_DIMENSION_BUFFER
        \<longrightarrow> vkd3d_create_buffer_srv venv bindless dh ro (Some srv) st = Some st)
   \<and> (init_default_texture_view_desc venv rs
          (case uo of None \<Rightarrow> 0 | Some uav \<Rightarrow> uav_Format uav) = None
        \<longrightarrow> vkd3d_create_texture_uav venv bindless dh (Some rs) uo st = st)
   \<and> (init_default_texture_view_desc venv rs
          (case uo of None \<Rightarrow> 0 | Some uav \<Rightarrow> uav_Format uav) = Some key
        \<and> format_is_compressed venv (tv_format key)
        \<longrightarrow> vkd3d_create_texture_uav venv bindless dh (Some rs) uo st = st)
   \<and> (init_default_texture_view_desc venv rs
          (case uo of None \<Rightarrow> 0 | Some uav \<Rightarrow> uav_Format uav) = Some key
        \<and> map_create_view venv rs
             (Key_image (case uo of None \<Rightarrow> key
                         | Some uav \<Rightarrow> texture_uav_key venv
                             (format_from_resource_desc venv (res_desc rs) 0) uav key))
            = None
        \<longrightarrow> vkd3d_create_texture_uav venv bindless dh (Some rs) uo st = st)
   \<and> (srv_ViewDimension srv = D3D12_SRV_DIMENSION_BUFFER
        \<and> aligned_view venv rs srv = None \<and> \<not> use_ssbo_raw_buffer venv
        \<longrightarrow> vkd3d_create_buffer_srv venv bindless dh (Some rs) (Some srv) st
            = Some (st\<lparr>slot := (slot st)\<lparr>metadata := (metadata (slot st))
                                   \<lparr>set_info_mask := 0, flags := {}\<rparr>\<rparr>\<rparr>))
   \<and> (srv_ViewDimension srv = D3D12_SRV_DIMENSION_BUFFER
        \<and> aligned_view venv rs srv = None \<and> use_ssbo_raw_buffer venv
        \<longrightarrow> vkd3d_create_buffer_srv venv bindless dh (Some rs) (Some srv) st
            = Some (st\<lparr>slot := (slot st)
                 \<lparr>info := Info_buffer (bound_range_ssbo venv rs srv),
                  metadata := (metadata (slot st))
                    \<lparr>cookie := res_cookie rs,
                     set_info_mask := push_bit (unat (find_set_info_index bindless
                        {VKD3D_BINDLESS_SET_SRV, VKD3D_BINDLESS_SET_RAW_SSBO})) 1,
                     flags := {VKD3D_DESCRIPTOR_FLAG_OFFSET_RANGE,
                               VKD3D_DESCRIPTOR_FLAG_NON_NULL}
                              \<union> (if ssbo_offset_buffer venv
                                  then {VKD3D_DESCRIPTOR_FLAG_BUFFER_OFFSET} else {})\<rparr>\<rparr>\<rparr>))"
proof (intro conjI impI)
  show "d3d12_desc_create_cbv bindless va_map dh None st = Some st"
    by (simp add: d3d12_desc_create_cbv_def)
  show "SizeInBytes_cbv cbv AND (D3D12_CONSTANT_BUFFER_DATA_PLACEMENT_ALIGNMENT - 1) \<noteq> 0
        \<Longrightarrow> d3d12_desc_create_cbv bindless va_map dh (Some cbv) st = Some st"
    by (simp add: d3d12_desc_create_cbv_def)
  show "vkd3d_create_buffer_srv venv bindless dh ro None st = Some st"
    by (simp add: vkd3d_create_buffer_srv_def)
  show "srv_ViewDimension srv \<noteq> D3D12_SRV_DIMENSION_RAYTRACING_ACCELERATION_STRUCTURE
        \<and> srv_ViewDimension srv \<noteq> D3D12_SRV_DIMENSION_BUFFER
        \<Longrightarrow> vkd3d_create_buffer_srv venv bindless dh ro (Some srv) st = Some st"
    by (simp add: vkd3d_create_buffer_srv_def)
  show "init_default_texture_view_desc venv rs
          (case uo of None \<Rightarrow> 0 | Some uav \<Rightarrow> uav_Format uav) = None
        \<Longrightarrow> vkd3d_create_texture_uav venv bindless dh (Some rs) uo st = st"
    by (simp add: vkd3d_create_texture_uav_def)
  show "init_default_texture_view_desc venv rs
          (case uo of None \<Rightarrow> 0 | Some uav \<Rightarrow> uav_Format uav) = Some key
        \<and> format_is_compressed venv (tv_format key)
        \<Longrightarrow> vkd3d_create_texture_uav venv bindless dh (Some rs) uo st = st"
    by (simp add: vkd3d_create_texture_uav_def)
  show "init_default_texture_view_desc venv rs
          (case uo of None \<Rightarrow> 0 | Some uav \<Rightarrow> uav_Format uav) = Some key
        \<and> map_create_view venv rs
             (Key_image (case uo of None \<Rightarrow> key
                         | Some uav \<Rightarrow> texture_uav_key venv
                             (format_from_resource_desc venv (res_desc rs) 0) uav key))
            = None
        \<Longrightarrow> vkd3d_create_texture_uav venv bindless dh (Some rs) uo st = st"
    by (simp add: vkd3d_create_texture_uav_def Let_def)
  show "srv_ViewDimension srv = D3D12_SRV_DIMENSION_BUFFER
        \<and> aligned_view venv rs srv = None \<and> \<not> use_ssbo_raw_buffer venv
        \<Longrightarrow> vkd3d_create_buffer_srv venv bindless dh (Some rs) (Some srv) st
            = Some (st\<lparr>slot := (slot st)\<lparr>metadata := (metadata (slot st))
                                   \<lparr>set_info_mask := 0, flags := {}\<rparr>\<rparr>\<rparr>)"
    by (simp add: vkd3d_create_buffer_srv_def buffer_srv_bind_def Let_def
        D3D12_SRV_DIMENSION_BUFFER_def
        D3D12_SRV_DIMENSION_RAYTRACING_ACCELERATION_STRUCTURE_def)
  show "srv_ViewDimension srv = D3D12_SRV_DIMENSION_BUFFER
        \<and> aligned_view venv rs srv = None \<and> use_ssbo_raw_buffer venv
        \<Longrightarrow> vkd3d_create_buffer_srv venv bindless dh (Some rs) (Some srv) st
            = Some (st\<lparr>slot := (slot st)
                 \<lparr>info := Info_buffer (bound_range_ssbo venv rs srv),
                  metadata := (metadata (slot st))
                    \<lparr>cookie := res_cookie rs,
                     set_info_mask := push_bit (unat (find_set_info_index bindless
                        {VKD3D_BINDLESS_SET_SRV, VKD3D_BINDLESS_SET_RAW_SSBO})) 1,
                     flags := {VKD3D_DESCRIPTOR_FLAG_OFFSET_RANGE,
                               VKD3D_DESCRIPTOR_FLAG_NON_NULL}
                              \<union> (if ssbo_offset_buffer venv
                                  then {VKD3D_DESCRIPTOR_FLAG_BUFFER_OFFSET} else {})\<rparr>\<rparr>\<rparr>)"
    by (simp add: vkd3d_create_buffer_srv_def buffer_srv_bind_def Let_def
        D3D12_SRV_DIMENSION_BUFFER_def
        D3D12_SRV_DIMENSION_RAYTRACING_ACCELERATION_STRUCTURE_def)
qed

text \<open>
  The example slot, bound to a constant buffer view. A misaligned constant buffer view, a
  buffer view of dimension 4 and a texture view of a compressed format leave it bound. A
  buffer view whose typed view cannot be created makes no native call and leaves the slot
  with cookie 5 and the cached buffer range, but with no set and no flags.
\<close>

theorem descriptor_create_failure_witness:
  "d3d12_desc_create_cbv example_bindless example_va_map (example_heap True)
      (Some example_cbv_desc) example_fresh_state = Some example_bound_state
   \<and> SizeInBytes_cbv (example_cbv_desc\<lparr>SizeInBytes_cbv := 100\<rparr>)
        AND (D3D12_CONSTANT_BUFFER_DATA_PLACEMENT_ALIGNMENT - 1) \<noteq> 0
   \<and> d3d12_desc_create_cbv example_bindless example_va_map (example_heap True)
        (Some (example_cbv_desc\<lparr>SizeInBytes_cbv := 100\<rparr>)) example_bound_state
       = Some example_bound_state
   \<and> VKD3D_DESCRIPTOR_FLAG_NON_NULL \<in> flags (metadata (slot example_bound_state))
   \<and> vkd3d_create_buffer_srv example_view_desc_env example_bindless (example_heap True)
        (Some example_buffer_resource) (Some (example_srv_desc 4)) example_bound_state
       = Some example_bound_state
   \<and> init_default_texture_view_desc example_view_desc_env example_resource 71
       = Some \<lparr>tv_image = 7, tv_view_type = VK_IMAGE_VIEW_TYPE_2D, tv_aspect_mask = 1,
                tv_format = 8192, tv_miplevel_idx = 0, tv_miplevel_count = 1,
                tv_layer_idx = 0, tv_layer_count = 1, tv_miplevel_clamp = 0,
                tv_components = \<lparr>comp_r = 0, comp_g = 0, comp_b = 0, comp_a = 0\<rparr>,
                tv_allowed_swizzle = False\<rparr>
   \<and> format_is_compressed example_view_desc_env 8192
   \<and> vkd3d_create_texture_uav example_view_desc_env example_bindless (example_heap True)
        (Some example_resource) (Some example_uav_desc) example_bound_state
       = example_bound_state
   \<and> srv_ViewDimension (example_srv_desc 1) = D3D12_SRV_DIMENSION_BUFFER
   \<and> aligned_view example_view_desc_env example_buffer_resource (example_srv_desc 1) = None
   \<and> \<not> use_ssbo_raw_buffer example_view_desc_env
   \<and> vkd3d_create_buffer_srv example_view_desc_env example_bindless (example_heap True)
        (Some example_buffer_resource) (Some (example_srv_desc 1)) example_bound_state
       = Some (example_bound_state
                 \<lparr>slot := (slot example_bound_state)
                    \<lparr>metadata := \<lparr>cookie = 5, set_info_mask = 0, flags = {},
                                   current_null_type = 0\<rparr>\<rparr>\<rparr>)"
proof -
  have a: "d3d12_desc_create_cbv example_bindless example_va_map (example_heap True)
      (Some example_cbv_desc) example_fresh_state = Some example_bound_state"
    by (simp add: d3d12_desc_create_cbv_def example_bindless_def example_va_map_def
        example_heap_def example_cbv_desc_def example_fresh_state_def example_bound_state_def
        example_cbv_write_def vkd3d_init_write_descriptor_set_def Let_def
        D3D12_CONSTANT_BUFFER_DATA_PLACEMENT_ALIGNMENT_def
        VK_DESCRIPTOR_TYPE_UNIFORM_BUFFER_def)
  have b: "SizeInBytes_cbv (example_cbv_desc\<lparr>SizeInBytes_cbv := 100\<rparr>)
        AND (D3D12_CONSTANT_BUFFER_DATA_PLACEMENT_ALIGNMENT - 1) \<noteq> 0"
    by (simp add: D3D12_CONSTANT_BUFFER_DATA_PLACEMENT_ALIGNMENT_def)
  note c = descriptor_create_failure [where cbv = "example_cbv_desc\<lparr>SizeInBytes_cbv := 100\<rparr>"
      and bindless = example_bindless and va_map = example_va_map
      and dh = "example_heap True" and st = example_bound_state,
      THEN conjunct2, THEN conjunct1, THEN mp, OF b]
  have d: "VKD3D_DESCRIPTOR_FLAG_NON_NULL \<in> flags (metadata (slot example_bound_state))"
    by (simp add: example_bound_state_def)
  have eh: "srv_ViewDimension (example_srv_desc 4)
              \<noteq> D3D12_SRV_DIMENSION_RAYTRACING_ACCELERATION_STRUCTURE
            \<and> srv_ViewDimension (example_srv_desc 4) \<noteq> D3D12_SRV_DIMENSION_BUFFER"
    by (simp add: example_srv_desc_def D3D12_SRV_DIMENSION_BUFFER_def
        D3D12_SRV_DIMENSION_RAYTRACING_ACCELERATION_STRUCTURE_def)
  note e = descriptor_create_failure [where srv = "example_srv_desc 4"
      and venv = example_view_desc_env and bindless = example_bindless
      and dh = "example_heap True" and st = example_bound_state
      and ro = "Some example_buffer_resource",
      THEN conjunct2, THEN conjunct2, THEN conjunct2, THEN conjunct1, THEN mp, OF eh]
  have f: "init_default_texture_view_desc example_view_desc_env example_resource 71
       = Some \<lparr>tv_image = 7, tv_view_type = VK_IMAGE_VIEW_TYPE_2D, tv_aspect_mask = 1,
                tv_format = 8192, tv_miplevel_idx = 0, tv_miplevel_count = 1,
                tv_layer_idx = 0, tv_layer_count = 1, tv_miplevel_clamp = 0,
                tv_components = \<lparr>comp_r = 0, comp_g = 0, comp_b = 0, comp_a = 0\<rparr>,
                tv_allowed_swizzle = False\<rparr>"
    by (simp add: init_default_texture_view_desc_def example_view_desc_env_def
        example_resource_def example_texture_desc_def Let_def
        VK_COMPONENT_SWIZZLE_IDENTITY_def)
  have g: "format_is_compressed example_view_desc_env 8192"
    by (simp add: example_view_desc_env_def)
  have fh: "init_default_texture_view_desc example_view_desc_env example_resource
          (case Some example_uav_desc of None \<Rightarrow> 0 | Some uav \<Rightarrow> uav_Format uav)
        = Some \<lparr>tv_image = 7, tv_view_type = VK_IMAGE_VIEW_TYPE_2D, tv_aspect_mask = 1,
                tv_format = 8192, tv_miplevel_idx = 0, tv_miplevel_count = 1,
                tv_layer_idx = 0, tv_layer_count = 1, tv_miplevel_clamp = 0,
                tv_components = \<lparr>comp_r = 0, comp_g = 0, comp_b = 0, comp_a = 0\<rparr>,
                tv_allowed_swizzle = False\<rparr>
      \<and> format_is_compressed example_view_desc_env
          (tv_format \<lparr>tv_image = 7, tv_view_type = VK_IMAGE_VIEW_TYPE_2D, tv_aspect_mask = 1,
                tv_format = 8192, tv_miplevel_idx = 0, tv_miplevel_count = 1,
                tv_layer_idx = 0, tv_layer_count = 1, tv_miplevel_clamp = 0,
                tv_components = \<lparr>comp_r = 0, comp_g = 0, comp_b = 0, comp_a = 0\<rparr>,
                tv_allowed_swizzle = False\<rparr>)"
    using f g by (simp add: example_uav_desc_def)
  note h = descriptor_create_failure [where venv = example_view_desc_env
      and rs = example_resource and uo = "Some example_uav_desc"
      and bindless = example_bindless and dh = "example_heap True"
      and st = example_bound_state,
      THEN conjunct2, THEN conjunct2, THEN conjunct2, THEN conjunct2, THEN conjunct2,
      THEN conjunct1, THEN mp, OF fh]
  have i1: "srv_ViewDimension (example_srv_desc 1) = D3D12_SRV_DIMENSION_BUFFER"
    by (simp add: example_srv_desc_def D3D12_SRV_DIMENSION_BUFFER_def)
  have i2: "aligned_view example_view_desc_env example_buffer_resource (example_srv_desc 1)
             = None"
    by (simp add: example_view_desc_env_def)
  have i3: "\<not> use_ssbo_raw_buffer example_view_desc_env"
    by (simp add: example_view_desc_env_def)
  from i1 i2 i3 have ih: "srv_ViewDimension (example_srv_desc 1) = D3D12_SRV_DIMENSION_BUFFER
        \<and> aligned_view example_view_desc_env example_buffer_resource (example_srv_desc 1)
            = None
        \<and> \<not> use_ssbo_raw_buffer example_view_desc_env"
    by simp
  have j: "vkd3d_create_buffer_srv example_view_desc_env example_bindless (example_heap True)
        (Some example_buffer_resource) (Some (example_srv_desc 1)) example_bound_state
       = Some (example_bound_state
                 \<lparr>slot := (slot example_bound_state)
                    \<lparr>metadata := \<lparr>cookie = 5, set_info_mask = 0, flags = {},
                                   current_null_type = 0\<rparr>\<rparr>\<rparr>)"
    using descriptor_create_failure [where srv = "example_srv_desc 1"
      and venv = example_view_desc_env and rs = example_buffer_resource
      and bindless = example_bindless and dh = "example_heap True"
      and st = example_bound_state,
      THEN conjunct2, THEN conjunct2, THEN conjunct2, THEN conjunct2, THEN conjunct2,
      THEN conjunct2, THEN conjunct2, THEN conjunct1, THEN mp, OF ih]
    by (simp add: example_bound_state_def)
  from a b c d e f g h i1 i2 i3 j show ?thesis
    by (intro conjI)
qed

text \<open>
  C5 as stated fails twice over. After the misaligned constant buffer view the slot is not
  in the null state: it is still bound. After the buffer view whose typed view cannot be
  created no native call was made, yet the metadata changed: \<^verbatim>\<open>NON_NULL\<close> is clear and no set
  is live, while the cookie and the cached range are those of the constant buffer view that
  the native set still holds; a null write would have set cookie 0 and made a native call.
\<close>

theorem descriptor_create_failure_counterexample:
  "VKD3D_DESCRIPTOR_FLAG_NON_NULL
     \<in> flags (metadata (slot (the (d3d12_desc_create_cbv example_bindless example_va_map
          (example_heap True) (Some (example_cbv_desc\<lparr>SizeInBytes_cbv := 100\<rparr>))
          example_bound_state))))
   \<and> calls (the (vkd3d_create_buffer_srv example_view_desc_env example_bindless
        (example_heap True) (Some example_buffer_resource) (Some (example_srv_desc 1))
        example_bound_state)) = calls example_bound_state
   \<and> metadata (slot (the (vkd3d_create_buffer_srv example_view_desc_env example_bindless
        (example_heap True) (Some example_buffer_resource) (Some (example_srv_desc 1))
        example_bound_state)))
       = \<lparr>cookie = 5, set_info_mask = 0, flags = {}, current_null_type = 0\<rparr>
   \<and> info (slot (the (vkd3d_create_buffer_srv example_view_desc_env example_bindless
        (example_heap True) (Some example_buffer_resource) (Some (example_srv_desc 1))
        example_bound_state)))
       = Info_buffer \<lparr>buffer = 77, buffer_offset = 256, buffer_range = 256\<rparr>
   \<and> metadata (slot (d3d12_descriptor_heap_write_null_descriptor_template (example_heap True)
        VK_DESCRIPTOR_TYPE_UNIFORM_TEXEL_BUFFER example_bound_state))
       = \<lparr>cookie = 0, set_info_mask = 3, flags = {},
          current_null_type = VK_DESCRIPTOR_TYPE_UNIFORM_TEXEL_BUFFER\<rparr>"
  by (simp add: d3d12_desc_create_cbv_def vkd3d_create_buffer_srv_def buffer_srv_bind_def
      d3d12_descriptor_heap_write_null_descriptor_template_def
      example_bound_state_def example_cbv_desc_def example_srv_desc_def
      example_view_desc_env_def example_heap_def example_template_def Let_def
      D3D12_CONSTANT_BUFFER_DATA_PLACEMENT_ALIGNMENT_def D3D12_SRV_DIMENSION_BUFFER_def
      D3D12_SRV_DIMENSION_RAYTRACING_ACCELERATION_STRUCTURE_def
      VK_DESCRIPTOR_TYPE_UNIFORM_TEXEL_BUFFER_def VK_DESCRIPTOR_TYPE_MUTABLE_VALVE_def)

end
